theory Spec2Isabelle
  imports Complex_Main
begin

section \<open>Values shared by the models\<close>

text \<open>
  Python's \<open>Decimal\<close> values are modelled as rationals. Sums and differences of column
  values (\<open>DecimalField\<close> with 15 digits, two of them after the point) are exact in
  Python's default context, as they are here. Quotients and products that may not fit the
  context's precision are passed through an explicit rounding function of the arithmetic
  context (see the depreciation calculator below).
\<close>

type_synonym decimal = rat

record date =
  year :: int
  month :: int
  day :: int

datatype error =
    ValueError string
  | DivisionByZero
  | InvalidOperation
  | DoesNotExist string
  | IntegrityError string
  | ValidationError string
  | BadRequest string

section \<open>Strings: the pieces of Python used by entry numbering\<close>

definition digit_char :: "nat \<Rightarrow> char" where
  "digit_char d = ''0123456789'' ! d"

fun digits_of :: "nat \<Rightarrow> string" where
  "digits_of n = (if n < 10 then [digit_char n] else digits_of (n div 10) @ [digit_char (n mod 10)])"

declare digits_of.simps [simp del]

text \<open>\<open>str(i)\<close> and \<open>f"{i}"\<close> for an integer.\<close>

definition py_str :: "int \<Rightarrow> string" where
  "py_str i = (if i < 0 then CHR ''-'' # digits_of (nat (- i)) else digits_of (nat i))"

text \<open>Zeros on the left up to the width.\<close>

function zfill :: "nat \<Rightarrow> string \<Rightarrow> string" where
  "zfill w s = (if length s < w then zfill w (CHR ''0'' # s) else s)"
  by pat_completeness auto
termination
  by (relation "measure (\<lambda>(w, s). w - length s)") auto

declare zfill.simps [simp del]

text \<open>\<open>f"{i:06d}"\<close>: the sign counts in the width.\<close>

definition format_06d :: "int \<Rightarrow> string" where
  "format_06d i = (if i < 0 then CHR ''-'' # zfill 5 (digits_of (nat (- i))) else zfill 6 (digits_of (nat i)))"

definition format_04d :: "int \<Rightarrow> string" where
  "format_04d i = (if i < 0 then CHR ''-'' # zfill 3 (digits_of (nat (- i))) else zfill 4 (digits_of (nat i)))"

definition format_02d :: "int \<Rightarrow> string" where
  "format_02d i = (if i < 0 then CHR ''-'' # zfill 1 (digits_of (nat (- i))) else zfill 2 (digits_of (nat i)))"

text \<open>\<open>d.strftime('%Y%m%d')\<close> and \<open>d.strftime('%Y%m')\<close>.\<close>

definition strftime_Ymd :: "date \<Rightarrow> string" where
  "strftime_Ymd d = format_04d (year d) @ format_02d (month d) @ format_02d (day d)"

definition strftime_Ym :: "date \<Rightarrow> string" where
  "strftime_Ym d = format_04d (year d) @ format_02d (month d)"

text \<open>\<open>s.split('-')[-1]\<close>: the text after the last hyphen, the whole string when there
  is none. The list returned by \<open>split\<close> is never empty, so the index never fails.\<close>

definition split_last :: "string \<Rightarrow> string" where
  "split_last s = rev (takeWhile (\<lambda>c. c \<noteq> CHR ''-'') (rev s))"

definition is_space :: "char \<Rightarrow> bool" where
  "is_space c = (let n = (of_char c :: nat) in (9 \<le> n \<and> n \<le> 13) \<or> (28 \<le> n \<and> n \<le> 32))"

definition is_digit :: "char \<Rightarrow> bool" where
  "is_digit c = (let n = (of_char c :: nat) in 48 \<le> n \<and> n \<le> 57)"

definition digit_val :: "char \<Rightarrow> nat" where
  "digit_val c = (of_char c :: nat) - 48"

definition strip :: "string \<Rightarrow> string" where
  "strip s = rev (dropWhile is_space (rev (dropWhile is_space s)))"

text \<open>The digits of an integer literal after its first digit: single underscores are
  allowed between digits.\<close>

fun digits_val :: "string \<Rightarrow> nat \<Rightarrow> nat option" where
  "digits_val [] acc = Some acc"
| "digits_val [c] acc = (if is_digit c then Some (10 * acc + digit_val c) else None)"
| "digits_val (c # d # ds) acc =
     (if is_digit c then digits_val (d # ds) (10 * acc + digit_val c)
      else if c = CHR ''_'' \<and> is_digit d then digits_val ds (10 * acc + digit_val d)
      else None)"

text \<open>\<open>int(s)\<close> on a string: \<open>None\<close> stands for \<open>ValueError\<close>. Characters are bytes here,
  so digits and spaces outside ASCII are not covered.\<close>

definition py_int :: "string \<Rightarrow> int option" where
  "py_int s =
     (case strip s of
        [] \<Rightarrow> None
      | c # cs \<Rightarrow>
          (let neg = (c = CHR ''-'');
               body = (if c = CHR ''-'' \<or> c = CHR ''+'' then cs else c # cs)
           in case body of
                [] \<Rightarrow> None
              | d # ds \<Rightarrow>
                  if is_digit d
                  then map_option (\<lambda>n. if neg then - int n else int n) (digits_val ds (digit_val d))
                  else None))"

text \<open>The order of \<open>order_by('entry_number')\<close>: strings compared character by
  character on their codes.\<close>

fun str_lt :: "string \<Rightarrow> string \<Rightarrow> bool" where
  "str_lt [] [] = False"
| "str_lt [] (y # ys) = True"
| "str_lt (x # xs) [] = False"
| "str_lt (x # xs) (y # ys) = ((of_char x :: nat) < of_char y \<or> (x = y \<and> str_lt xs ys))"

section \<open>Accounting: accounts, journal entries and their lines\<close>

record account =
  acc_id :: nat
  code :: string
  account_type :: string
  balance :: decimal
  debit_balance :: decimal
  credit_balance :: decimal

record journal_entry =
  je_id :: nat
  entry_number :: string
  je_date :: date
  entry_type :: string
  status :: string
  total_amount :: decimal

record journal_entry_line =
  journal_entry :: nat
  account :: nat
  debit_amount :: decimal
  credit_amount :: decimal

text \<open>
  The database: the account rows by primary key, the index of the unique column
  \<open>Account.code\<close>, and the tables of journal entries and of their lines. Foreign keys are
  enforced by the database (\<open>on_delete=PROTECT\<close>), so every primary key resolves to a row.
  The rows and the amounts of lines are column values, with two decimal places, so the
  rounding to two places that a save applies changes nothing and is not written out.
\<close>

record db =
  accounts :: "nat \<Rightarrow> account"
  account_codes :: "string \<Rightarrow> nat option"
  entries :: "journal_entry list"
  lines :: "journal_entry_line list"

text \<open>Loading an account by primary key gives an object carrying that key.\<close>

definition get_account :: "db \<Rightarrow> nat \<Rightarrow> account" where
  "get_account d i = (accounts d i)\<lparr>acc_id := i\<rparr>"

text \<open>
  The money columns are all \<open>DecimalField(max_digits=15, decimal_places=2)\<close>: a value fits
  when it has at most 13 digits before the point. Saving a row with a value that does not
  fit raises (\<open>decimal.InvalidOperation\<close> where Django formats the value, the numeric overflow
  of the database otherwise), and nothing is written.
\<close>

definition fits :: "decimal \<Rightarrow> bool" where
  "fits x = (\<bar>x\<bar> < 10 ^ 13)"

definition row_fits :: "account \<Rightarrow> bool" where
  "row_fits a = (fits (balance a) \<and> fits (debit_balance a) \<and> fits (credit_balance a))"

text \<open>\<open>Model.save()\<close> of an account: the row of the object's key is overwritten.\<close>

definition account_save :: "db \<Rightarrow> account \<Rightarrow> error + db" where
  "account_save d a =
     (if row_fits a then Inr (d\<lparr>accounts := (accounts d)(acc_id a := a)\<rparr>)
      else Inl InvalidOperation)"

text \<open>\<open>Account.update_balance\<close>: the outcome, the database and the object afterwards. The
  object has its new \<open>balance\<close> also when the save raises.\<close>

definition update_balance :: "db \<Rightarrow> account \<Rightarrow> (error + unit) \<times> db \<times> account" where
  "update_balance d a =
     (let a' = (if account_type a \<in> set [''ASSET'', ''EXPENSE'']
                then a\<lparr>balance := debit_balance a - credit_balance a\<rparr>
                else a\<lparr>balance := credit_balance a - debit_balance a\<rparr>)
      in case account_save d a' of
           Inl err \<Rightarrow> (Inl err, d, a')
         | Inr d' \<Rightarrow> (Inr (), d', a'))"

subsection \<open>Saving a journal entry: entry-number generation\<close>

text \<open>\<open>.order_by('-entry_number').first()\<close>\<close>

fun first_desc :: "journal_entry list \<Rightarrow> journal_entry option" where
  "first_desc [] = None"
| "first_desc (e # es) =
     (case first_desc es of
        None \<Rightarrow> Some e
      | Some m \<Rightarrow> if str_lt (entry_number e) (entry_number m) then Some m else Some e)"

definition generate_entry_number :: "journal_entry list \<Rightarrow> date \<Rightarrow> string" where
  "generate_entry_number es d =
     (case first_desc (filter (\<lambda>e. year (je_date e) = year d) es) of
        Some last_entry \<Rightarrow>
          if entry_number last_entry \<noteq> []
          then (case py_int (split_last (entry_number last_entry)) of
                  Some last_num \<Rightarrow> py_str (year d) @ ''-'' @ format_06d (last_num + 1)
                | None \<Rightarrow> py_str (year d) @ ''-000001'')
          else py_str (year d) @ ''-000001''
      | None \<Rightarrow> py_str (year d) @ ''-000001'')"

text \<open>
  \<open>super().save()\<close> of a journal entry: a \<open>total_amount\<close> that does not fit its column
  raises; the row with the entry's key is replaced, or the entry is appended; the column
  \<open>entry_number\<close> is declared \<open>unique=True\<close>, so a second row with the same number is
  refused.
\<close>

definition upsert :: "journal_entry list \<Rightarrow> journal_entry \<Rightarrow> journal_entry list" where
  "upsert es e =
     (if je_id e \<in> set (map je_id es)
      then map (\<lambda>r. if je_id r = je_id e then e else r) es
      else es @ [e])"

definition number_taken :: "journal_entry list \<Rightarrow> journal_entry \<Rightarrow> bool" where
  "number_taken es e = (\<exists>r \<in> set es. entry_number r = entry_number e \<and> je_id r \<noteq> je_id e)"

definition je_super_save :: "db \<Rightarrow> journal_entry \<Rightarrow> error + db" where
  "je_super_save d e =
     (if \<not> fits (total_amount e) then Inl InvalidOperation
      else if number_taken (entries d) e then Inl (IntegrityError ''entry_number'')
      else Inr (d\<lparr>entries := upsert (entries d) e\<rparr>))"

text \<open>\<open>JournalEntry.save\<close>: the outcome, the database and the object afterwards.\<close>

definition je_save :: "db \<Rightarrow> journal_entry \<Rightarrow> (error + unit) \<times> db \<times> journal_entry" where
  "je_save d e =
     (let e1 = (if entry_number e = []
                then e\<lparr>entry_number := generate_entry_number (entries d) (je_date e)\<rparr>
                else e)
      in case je_super_save d e1 of
           Inl err \<Rightarrow> (Inl err, d, e1)
         | Inr d' \<Rightarrow> (Inr (), d', e1))"

subsection \<open>Posting and reversing\<close>

text \<open>\<open>self.lines.all()\<close>: the line rows of the entry, loaded from the database.\<close>

definition lines_all :: "db \<Rightarrow> journal_entry \<Rightarrow> journal_entry_line list" where
  "lines_all d e = filter (\<lambda>l. journal_entry l = je_id e) (lines d)"

text \<open>One round of the loop of \<open>post\<close>: \<open>line.account\<close> is loaded from the database.\<close>

definition post_line :: "db \<Rightarrow> journal_entry_line \<Rightarrow> (error + unit) \<times> db" where
  "post_line d l =
     (let a = get_account d (account l);
          a1 = a\<lparr>debit_balance := debit_balance a + debit_amount l\<rparr>;
          a2 = a1\<lparr>credit_balance := credit_balance a1 + credit_amount l\<rparr>
      in case update_balance d a2 of (r, d', a') \<Rightarrow> (r, d'))"

definition reverse_line :: "db \<Rightarrow> journal_entry_line \<Rightarrow> (error + unit) \<times> db" where
  "reverse_line d l =
     (let a = get_account d (account l);
          a1 = a\<lparr>debit_balance := debit_balance a - debit_amount l\<rparr>;
          a2 = a1\<lparr>credit_balance := credit_balance a1 - credit_amount l\<rparr>
      in case update_balance d a2 of (r, d', a') \<Rightarrow> (r, d'))"

text \<open>
  The loops over the lines. There is no transaction around them: when the save of one
  account raises, the loop ends there and the accounts saved before keep their new values.
\<close>

fun post_loop :: "db \<Rightarrow> journal_entry_line list \<Rightarrow> (error + unit) \<times> db" where
  "post_loop d [] = (Inr (), d)"
| "post_loop d (l # ls) =
     (case post_line d l of
        (Inl err, d') \<Rightarrow> (Inl err, d')
      | (Inr u, d') \<Rightarrow> post_loop d' ls)"

fun reverse_loop :: "db \<Rightarrow> journal_entry_line list \<Rightarrow> (error + unit) \<times> db" where
  "reverse_loop d [] = (Inr (), d)"
| "reverse_loop d (l # ls) =
     (case reverse_line d l of
        (Inl err, d') \<Rightarrow> (Inl err, d')
      | (Inr u, d') \<Rightarrow> reverse_loop d' ls)"

definition post :: "db \<Rightarrow> journal_entry \<Rightarrow> (error + unit) \<times> db \<times> journal_entry" where
  "post d e =
     (if status e \<noteq> ''DRAFT'' then (Inl (ValueError ''Only draft entries can be posted''), d, e)
      else
        let total_debits = sum_list (map debit_amount (lines_all d e));
            total_credits = sum_list (map credit_amount (lines_all d e))
        in if total_debits \<noteq> total_credits
           then (Inl (ValueError ''Debits must equal credits''), d, e)
           else (case post_loop d (lines_all d e) of
                   (Inl err, d') \<Rightarrow> (Inl err, d', e)
                 | (Inr u, d') \<Rightarrow> je_save d' (e\<lparr>status := ''POSTED''\<rparr>)))"

definition reverse :: "db \<Rightarrow> journal_entry \<Rightarrow> (error + unit) \<times> db \<times> journal_entry" where
  "reverse d e =
     (if status e \<noteq> ''POSTED'' then (Inl (ValueError ''Only posted entries can be reversed''), d, e)
      else (case reverse_loop d (lines_all d e) of
              (Inl err, d') \<Rightarrow> (Inl err, d', e)
            | (Inr u, d') \<Rightarrow> je_save d' (e\<lparr>status := ''REVERSED''\<rparr>)))"

text \<open>
  \<open>JournalEntryLine.save\<close>: the row is written (amounts that do not fit their columns
  raise), then the balances of \<open>self.account\<close> are updated. \<open>self.account\<close> is the object the
  caller attached to the line when there is one (\<open>cached\<close>), and is loaded from the database
  otherwise. An attached object carries the totals it had when it was loaded or last
  changed, which need not be those of the row any more.
\<close>

definition line_account :: "db \<Rightarrow> journal_entry_line \<Rightarrow> account option \<Rightarrow> account" where
  "line_account d l cached = (case cached of Some a \<Rightarrow> a | None \<Rightarrow> get_account d (account l))"

definition line_save :: "db \<Rightarrow> journal_entry_line \<Rightarrow> account option
    \<Rightarrow> (error + unit) \<times> db \<times> account" where
  "line_save d l cached =
     (if \<not> (fits (debit_amount l) \<and> fits (credit_amount l))
      then (Inl InvalidOperation, d, line_account d l cached)
      else
        let d1 = d\<lparr>lines := lines d @ [l]\<rparr>;
            a = line_account d1 l cached;
            a1 = a\<lparr>debit_balance := debit_balance a + debit_amount l\<rparr>;
            a2 = a1\<lparr>credit_balance := credit_balance a1 + credit_amount l\<rparr>
        in update_balance d1 a2)"

subsection \<open>Predicates used in the statements about the ledger\<close>

text \<open>The value \<open>update_balance\<close> assigns to \<open>balance\<close>, and the accounts whose
  \<open>balance\<close> has that value.\<close>

definition type_balance :: "account \<Rightarrow> decimal" where
  "type_balance a =
     (if account_type a \<in> set [''ASSET'', ''EXPENSE'']
      then debit_balance a - credit_balance a
      else credit_balance a - debit_balance a)"

definition balance_ok :: "account \<Rightarrow> bool" where
  "balance_ok a = (balance a = type_balance a)"

text \<open>An entry as the database holds it: stored under a number of its own, with an amount
  that fits its column. Saving it again is an update of its row.\<close>

definition saved_entry :: "db \<Rightarrow> journal_entry \<Rightarrow> bool" where
  "saved_entry d e =
     (entry_number e \<noteq> [] \<and> \<not> number_taken (entries d) e \<and> fits (total_amount e))"

definition balanced :: "db \<Rightarrow> journal_entry \<Rightarrow> bool" where
  "balanced d e =
     (sum_list (map debit_amount (lines_all d e)) = sum_list (map credit_amount (lines_all d e)))"

text \<open>The amounts an entry's lines carry for one account.\<close>

definition debits_on :: "nat \<Rightarrow> journal_entry_line list \<Rightarrow> decimal" where
  "debits_on i ls = sum_list (map debit_amount (filter (\<lambda>l. account l = i) ls))"

definition credits_on :: "nat \<Rightarrow> journal_entry_line list \<Rightarrow> decimal" where
  "credits_on i ls = sum_list (map credit_amount (filter (\<lambda>l. account l = i) ls))"

text \<open>
  The account rows as they stand once the amounts of a line have been added to, or taken
  from, the row of the line's account and its \<open>balance\<close> recomputed; and the condition that
  every row written while the lines are gone through, one after the other, fits its
  columns.
\<close>

definition posted :: "(nat \<Rightarrow> account) \<Rightarrow> journal_entry_line \<Rightarrow> nat \<Rightarrow> account" where
  "posted rows l =
     rows(account l :=
       (let a = rows (account l);
            dr = debit_balance a + debit_amount l;
            cr = credit_balance a + credit_amount l
        in a\<lparr>acc_id := account l, debit_balance := dr, credit_balance := cr,
              balance := (if account_type a \<in> set [''ASSET'', ''EXPENSE'']
                          then dr - cr else cr - dr)\<rparr>))"

definition reversed :: "(nat \<Rightarrow> account) \<Rightarrow> journal_entry_line \<Rightarrow> nat \<Rightarrow> account" where
  "reversed rows l =
     rows(account l :=
       (let a = rows (account l);
            dr = debit_balance a - debit_amount l;
            cr = credit_balance a - credit_amount l
        in a\<lparr>acc_id := account l, debit_balance := dr, credit_balance := cr,
              balance := (if account_type a \<in> set [''ASSET'', ''EXPENSE'']
                          then dr - cr else cr - dr)\<rparr>))"

fun post_fits :: "(nat \<Rightarrow> account) \<Rightarrow> journal_entry_line list \<Rightarrow> bool" where
  "post_fits rows [] = True"
| "post_fits rows (l # ls) = (row_fits (posted rows l (account l)) \<and> post_fits (posted rows l) ls)"

fun reverse_fits :: "(nat \<Rightarrow> account) \<Rightarrow> journal_entry_line list \<Rightarrow> bool" where
  "reverse_fits rows [] = True"
| "reverse_fits rows (l # ls) =
     (row_fits (reversed rows l (account l)) \<and> reverse_fits (reversed rows l) ls)"

text \<open>The rows of the entries table under the key of an entry all have the given status,
  and there is one.\<close>

definition stored_status :: "db \<Rightarrow> journal_entry \<Rightarrow> string \<Rightarrow> bool" where
  "stored_status d e s =
     (list_ex (\<lambda>r. je_id r = je_id e) (entries d)
      \<and> list_all (\<lambda>r. status r = s) (filter (\<lambda>r. je_id r = je_id e) (entries d)))"

subsection \<open>Sequences of ledger operations\<close>




text \<open>\<open>entry.post(); entry.reverse()\<close> on one entry object: an exception of \<open>post\<close> ends the
  sequence.\<close>

definition post_then_reverse :: "db \<Rightarrow> journal_entry \<Rightarrow> (error + unit) \<times> db \<times> journal_entry" where
  "post_then_reverse d e =
     (case post d e of
        (Inl err, d1, e1) \<Rightarrow> (Inl err, d1, e1)
      | (Inr u, d1, e1) \<Rightarrow> reverse d1 e1)"



subsection \<open>A small ledger: one expense paid on credit\<close>

text \<open>Account 1 is an expense account, every other account a liability; entry 1 debits 250 to
  account 1 and credits 250 to account 2.\<close>

definition ex_date :: date where
  "ex_date = \<lparr>year = 2025, month = 3, day = 14\<rparr>"

definition ex_accounts :: "nat \<Rightarrow> account" where
  "ex_accounts i =
     \<lparr>acc_id = i, code = (if i = 1 then ''6100'' else ''2001''),
      account_type = (if i = 1 then ''EXPENSE'' else ''LIABILITY''),
      balance = 0, debit_balance = 0, credit_balance = 0\<rparr>"

definition ex_entry :: journal_entry where
  "ex_entry = \<lparr>je_id = 1, entry_number = ''2025-000001'', je_date = ex_date,
      entry_type = ''AUTO'', status = ''DRAFT'', total_amount = 250\<rparr>"

definition ex_line1 :: journal_entry_line where
  "ex_line1 = \<lparr>journal_entry = 1, account = 1, debit_amount = 250, credit_amount = 0\<rparr>"

definition ex_line2 :: journal_entry_line where
  "ex_line2 = \<lparr>journal_entry = 1, account = 2, debit_amount = 0, credit_amount = 250\<rparr>"

definition ex_db0 :: db where
  "ex_db0 = \<lparr>accounts = ex_accounts, account_codes = Map.empty, entries = [ex_entry], lines = []\<rparr>"

definition ex_db :: db where
  "ex_db = ex_db0\<lparr>lines := [ex_line1, ex_line2]\<rparr>"

definition ex_db_unbalanced :: db where
  "ex_db_unbalanced = ex_db0\<lparr>lines := [ex_line1]\<rparr>"


subsection \<open>The same ledger at the end of a column, with a wrong balance, and with two
  objects of one account\<close>

text \<open>
  The expense account stands at 9999999999999.99, the greatest value of its columns, and
  the entry credits a cent to account 2 and then debits a cent to account 1.
\<close>

definition ex_full_accounts :: "nat \<Rightarrow> account" where
  "ex_full_accounts i =
     (if i = 1
      then (ex_accounts 1)\<lparr>balance := 999999999999999 / 100,
                            debit_balance := 999999999999999 / 100\<rparr>
      else ex_accounts i)"

definition ex_cent_credit :: journal_entry_line where
  "ex_cent_credit = \<lparr>journal_entry = 1, account = 2, debit_amount = 0, credit_amount = 1 / 100\<rparr>"

definition ex_cent_debit :: journal_entry_line where
  "ex_cent_debit = \<lparr>journal_entry = 1, account = 1, debit_amount = 1 / 100, credit_amount = 0\<rparr>"

definition ex_db_full :: db where
  "ex_db_full = ex_db0\<lparr>accounts := ex_full_accounts, lines := [ex_cent_credit, ex_cent_debit]\<rparr>"

text \<open>The expense account shows a balance of 500 over totals of zero.\<close>

definition ex_db_wrong_balance :: db where
  "ex_db_wrong_balance = ex_db\<lparr>accounts := (\<lambda>i. if i = 1 then (ex_accounts 1)\<lparr>balance := 500\<rparr>
                                                 else ex_accounts i)\<rparr>"

text \<open>
  Two debit lines of 100 and 150 on account 1 and a credit line of 250 on account 2; the
  creator loaded account 1 twice before saving the first line and attached one object to
  each debit line.
\<close>

definition ex_debit_100 :: journal_entry_line where
  "ex_debit_100 = \<lparr>journal_entry = 1, account = 1, debit_amount = 100, credit_amount = 0\<rparr>"

definition ex_debit_150 :: journal_entry_line where
  "ex_debit_150 = \<lparr>journal_entry = 1, account = 1, debit_amount = 150, credit_amount = 0\<rparr>"

definition ex_two_objects :: "(journal_entry_line \<times> account option) list" where
  "ex_two_objects =
     [(ex_debit_100, Some (get_account ex_db0 1)), (ex_debit_150, Some (get_account ex_db0 1)),
      (ex_line2, Some (get_account ex_db0 2))]"

text \<open>The lines of the first example, each with an object loaded just before its save.\<close>

definition ex_fresh_objects :: "(journal_entry_line \<times> account option) list" where
  "ex_fresh_objects = [(ex_line1, Some (get_account ex_db0 1)), (ex_line2, None)]"

subsection \<open>Entries of one year under numbers of two formats\<close>

text \<open>Two entries numbered by \<open>JournalEntry.save\<close> and the purchase entry of an asset, whose
  number \<open>Asset.create_purchase_journal_entry\<close> writes as \<open>PURCH-\<close> and the asset number; a
  fourth entry of the same year is about to be saved without a number.\<close>

definition ex_numbered :: "nat \<Rightarrow> string \<Rightarrow> string \<Rightarrow> journal_entry" where
  "ex_numbered i num kind =
     \<lparr>je_id = i, entry_number = num, je_date = ex_date, entry_type = kind,
      status = ''POSTED'', total_amount = 100\<rparr>"

definition ex_entries_2025 :: "journal_entry list" where
  "ex_entries_2025 =
     [ex_numbered 1 ''2025-000001'' ''AUTO'', ex_numbered 2 ''2025-000002'' ''AUTO'',
      ex_numbered 3 ''PURCH-EQP-2025-0001'' ''PURCHASE'']"

definition ex_new_entry :: journal_entry where
  "ex_new_entry = \<lparr>je_id = 4, entry_number = [], je_date = ex_date, entry_type = ''AUTO'',
      status = ''DRAFT'', total_amount = 75\<rparr>"

definition ex_db_2025 :: db where
  "ex_db_2025 = ex_db0\<lparr>entries := ex_entries_2025\<rparr>"

text \<open>
  The numbering as the specification words it, for comparison with \<open>generate_entry_number\<close>:
  the greatest numeric suffix among the entries of the year, plus one, starting at 1.
\<close>

definition numeric_suffixes :: "journal_entry list \<Rightarrow> date \<Rightarrow> int list" where
  "numeric_suffixes es d =
     concat (map (\<lambda>e. case py_int (split_last (entry_number e)) of Some n \<Rightarrow> [n] | None \<Rightarrow> [])
       (filter (\<lambda>e. year (je_date e) = year d) es))"

definition entry_number_by_max_suffix :: "journal_entry list \<Rightarrow> date \<Rightarrow> string" where
  "entry_number_by_max_suffix es d =
     py_str (year d) @ ''-'' @ format_06d (fold max (numeric_suffixes es d) 0 + 1)"

section \<open>Assets: the depreciation calculator\<close>

record asset_category =
  cat_code :: string
  cat_name :: string
  cat_depreciation_method :: string
  asset_account :: string
  depreciation_account :: string
  expense_account :: string

record asset =
  asset_number :: string
  asset_name :: string
  category :: asset_category
  purchase_cost :: decimal
  purchase_date :: date
  salvage_value :: decimal
  useful_life_years :: int
  depreciation_method :: string
  accumulated_depreciation :: decimal
  current_book_value :: decimal
  last_depreciation_date :: "date option"
  asset_status :: string
  disposal_date :: "date option"
  disposal_amount :: "decimal option"
  disposal_method :: string

text \<open>
  What the code reads from its surroundings: the current date (\<open>date.today()\<close>,
  \<open>timezone.now()\<close>), the rounding of the decimal context (by default to 28 significant
  digits, half to even), applied to every quotient and product and to the sums of the
  declining-balance loop, and the number of assets whose number starts with a prefix.
  The theorems below hold for every rounding function; the examples are chosen so that
  every intermediate value is exact, and are run with the identity.
\<close>

record env =
  today :: date
  ctx :: "decimal \<Rightarrow> decimal"
  assets_with_prefix :: "string \<Rightarrow> nat"

text \<open>\<open>d1 > d2\<close> on dates.\<close>

definition date_gt :: "date \<Rightarrow> date \<Rightarrow> bool" where
  "date_gt d1 d2 =
     (year d1 > year d2 \<or> (year d1 = year d2 \<and>
        (month d1 > month d2 \<or> (month d1 = month d2 \<and> day d1 > day d2))))"

text \<open>\<open>x.quantize(Decimal('0.01'), rounding=ROUND_HALF_UP)\<close>: to two places, a half away
  from zero.\<close>

definition quantize :: "decimal \<Rightarrow> decimal" where
  "quantize x =
     (if 0 \<le> x then of_int \<lfloor>x * 100 + 1 / 2\<rfloor> / 100
      else - (of_int \<lfloor>- x * 100 + 1 / 2\<rfloor> / 100))"

text \<open>\<open>self.depreciation_method or self.category.depreciation_method\<close>\<close>

definition method_of :: "asset \<Rightarrow> string" where
  "method_of a =
     (if depreciation_method a \<noteq> [] then depreciation_method a
      else cat_depreciation_method (category a))"

definition depreciation_rate :: "env \<Rightarrow> asset \<Rightarrow> decimal" where
  "depreciation_rate en a =
     (if useful_life_years a \<le> 0 then 0
      else
        let method = method_of a in
        if method = ''STRAIGHT_LINE'' then ctx en (1 / of_int (useful_life_years a))
        else if method = ''DOUBLE_DECLINING'' then ctx en (2 / of_int (useful_life_years a))
        else if method = ''DECLINING_BALANCE'' then ctx en ((3 / 2) / of_int (useful_life_years a))
        else ctx en (1 / of_int (useful_life_years a)))"

text \<open>A division by a zero \<open>Decimal\<close> raises (\<open>DivisionByZero\<close>, or \<open>InvalidOperation\<close> for
  \<open>0 / 0\<close>); one error value stands for both.\<close>

definition decimal_div :: "env \<Rightarrow> decimal \<Rightarrow> decimal \<Rightarrow> error + decimal" where
  "decimal_div en x y = (if y = 0 then Inl DivisionByZero else Inr (ctx en (x / y)))"

definition annual_depreciation :: "env \<Rightarrow> asset \<Rightarrow> error + decimal" where
  "annual_depreciation en a =
     (if asset_status a \<in> set [''DISPOSED'', ''SOLD''] then Inr 0
      else
        let method = method_of a;
            depreciable_amount = purchase_cost a - salvage_value a
        in
        if method = ''STRAIGHT_LINE''
        then decimal_div en depreciable_amount (of_int (useful_life_years a))
        else if method \<in> set [''DECLINING_BALANCE'', ''DOUBLE_DECLINING'']
        then (let remaining_value = current_book_value a - salvage_value a
              in if remaining_value \<le> 0 then Inr 0
                 else Inr (ctx en (remaining_value * depreciation_rate en a)))
        else decimal_div en depreciable_amount (of_int (useful_life_years a)))"

definition monthly_depreciation :: "env \<Rightarrow> asset \<Rightarrow> error + decimal" where
  "monthly_depreciation en a =
     (case annual_depreciation en a of
        Inl err \<Rightarrow> Inl err
      | Inr annual \<Rightarrow> Inr (ctx en (annual / 12)))"

text \<open>
  The loop of the double-declining branch of \<open>calculate_current_values\<close>, over the values
  of \<open>year\<close> still to come, on the pair \<open>(remaining_value, total_depreciation)\<close>.
\<close>

fun declining_loop :: "env \<Rightarrow> decimal \<Rightarrow> decimal \<Rightarrow> int \<Rightarrow> int list \<Rightarrow> decimal \<times> decimal
    \<Rightarrow> decimal \<times> decimal" where
  "declining_loop en salvage annual_rate months_owned [] st = st"
| "declining_loop en salvage annual_rate months_owned (yr # yrs) (remaining_value, total_depreciation) =
     (if remaining_value \<le> salvage then (remaining_value, total_depreciation)
      else
        let year_depreciation = ctx en (remaining_value * annual_rate);
            year_depreciation =
              (if ctx en (remaining_value - year_depreciation) < salvage
               then ctx en (remaining_value - salvage) else year_depreciation);
            year_depreciation =
              (if yr = months_owned div 12
               then ctx en (year_depreciation * ctx en (of_int (months_owned mod 12) / 12))
               else year_depreciation)
        in declining_loop en salvage annual_rate months_owned yrs
             (ctx en (remaining_value - year_depreciation),
              ctx en (total_depreciation + year_depreciation)))"

definition straight_line_total :: "env \<Rightarrow> asset \<Rightarrow> int \<Rightarrow> error + decimal" where
  "straight_line_total en a months_owned =
     decimal_div en (ctx en ((purchase_cost a - salvage_value a) * of_int months_owned))
       (of_int (useful_life_years a) * 12)"

definition calculate_current_values :: "env \<Rightarrow> asset \<Rightarrow> error + asset" where
  "calculate_current_values en a =
     (if asset_status a \<in> set [''DISPOSED'', ''SOLD''] then Inr a
      else if date_gt (purchase_date a) (today en) then Inr a
      else
        let months_owned = (year (today en) - year (purchase_date a)) * 12
                           + (month (today en) - month (purchase_date a))
        in
        if months_owned \<le> 0
        then Inr (a\<lparr>accumulated_depreciation := 0, current_book_value := purchase_cost a\<rparr>)
        else
          let method = method_of a;
              computed = (if method = ''STRAIGHT_LINE'' then straight_line_total en a months_owned
                          else if method = ''DOUBLE_DECLINING''
                          then Inr (snd (declining_loop en (salvage_value a) (depreciation_rate en a)
                                   months_owned [0 .. months_owned div 12] (purchase_cost a, 0)))
                          else straight_line_total en a months_owned)
          in case computed of
               Inl err \<Rightarrow> Inl err
             | Inr total_depreciation \<Rightarrow>
                 let max_depreciation = purchase_cost a - salvage_value a;
                     total_depreciation = min total_depreciation max_depreciation;
                     accumulated = quantize total_depreciation
                 in Inr (a\<lparr>accumulated_depreciation := accumulated,
                           current_book_value := quantize (purchase_cost a - accumulated)\<rparr>))"

text \<open>\<open>Asset.generate_asset_number\<close>; an asset always has a category.\<close>

definition generate_asset_number :: "env \<Rightarrow> asset \<Rightarrow> string" where
  "generate_asset_number en a =
     (let prefix = cat_code (category a) @ ''-'' @ py_str (year (today en)) @ ''-''
      in prefix @ format_04d (int (assets_with_prefix en prefix) + 1))"

text \<open>
  \<open>Asset.save\<close>, as far as the asset's own fields go. The primary key is a UUID given to
  the object when it is built, so \<open>self.pk is None\<close> is false and the branch that creates
  the purchase entry is not taken.
\<close>

definition asset_save :: "env \<Rightarrow> asset \<Rightarrow> error + asset" where
  "asset_save en a =
     (let a1 = (if asset_number a = [] then a\<lparr>asset_number := generate_asset_number en a\<rparr> else a);
          a2 = (if depreciation_method a1 = []
                then a1\<lparr>depreciation_method := cat_depreciation_method (category a1)\<rparr> else a1)
      in calculate_current_values en a2)"

text \<open>
  \<open>Asset.calculate_current_depreciation\<close>; \<open>existing_entry\<close> says whether a depreciation
  record of the asset exists for the current month.
\<close>

definition calculate_current_depreciation :: "env \<Rightarrow> bool \<Rightarrow> asset \<Rightarrow> error + decimal" where
  "calculate_current_depreciation en existing_entry a =
     (if asset_status a \<in> set [''DISPOSED'', ''SOLD''] then Inr 0
      else if existing_entry then Inr 0
      else monthly_depreciation en a)"

text \<open>
  The body of the loop of the task \<open>calculate_monthly_depreciation\<close> for one asset, as far
  as the asset goes: \<open>None\<close> when no depreciation is due and the asset is left alone.
  An exception ends the round for this asset.
\<close>

definition monthly_depreciation_round :: "env \<Rightarrow> bool \<Rightarrow> asset \<Rightarrow> error + asset option" where
  "monthly_depreciation_round en existing_entry a =
     (case calculate_current_depreciation en existing_entry a of
        Inl err \<Rightarrow> Inl err
      | Inr depreciation_amount \<Rightarrow>
          if depreciation_amount > 0
          then
            let a1 = a\<lparr>accumulated_depreciation := accumulated_depreciation a + depreciation_amount\<rparr>;
                a2 = a1\<lparr>current_book_value :=
                          max (purchase_cost a1 - accumulated_depreciation a1)
                              (if salvage_value a1 \<noteq> 0 then salvage_value a1 else 0)\<rparr>;
                a3 = a2\<lparr>last_depreciation_date := Some (today en)\<rparr>
            in map_sum id Some (asset_save en a3)
          else Inr None)"

text \<open>Values of a column with two decimal places.\<close>

definition two_places :: "decimal \<Rightarrow> bool" where
  "two_places x = (of_int \<lfloor>x * 100\<rfloor> = x * 100)"

section \<open>Assets: disposal\<close>

record disposal_result =
  journal_entry_id :: nat
  book_value :: decimal
  result_disposal_amount :: decimal
  gain_loss :: decimal

text \<open>\<open>Account.objects.get(code=c)\<close>\<close>

definition account_by_code :: "db \<Rightarrow> string \<Rightarrow> error + account" where
  "account_by_code d c =
     (case account_codes d c of
        None \<Rightarrow> Inl (DoesNotExist c)
      | Some i \<Rightarrow> Inr (get_account d i))"

text \<open>
  \<open>Account.objects.get_or_create(code='8500', defaults={...})\<close> in \<open>create_disposal_entry\<close>:
  the defaults give no \<open>category\<close>, a foreign key that is not nullable, so creating the
  account is refused by the database when it does not exist yet.
\<close>

definition get_or_create_gain_loss :: "db \<Rightarrow> error + account" where
  "get_or_create_gain_loss d =
     (case account_codes d ''8500'' of
        Some i \<Rightarrow> Inr (get_account d i)
      | None \<Rightarrow> Inl (IntegrityError ''category_id''))"

text \<open>\<open>JournalEntry.objects.create(...)\<close>: a new object under a fresh primary key, saved.\<close>

definition new_je_id :: "db \<Rightarrow> nat" where
  "new_je_id d = Suc (fold max (map je_id (entries d)) 0)"

definition je_create :: "db \<Rightarrow> string \<Rightarrow> date \<Rightarrow> string \<Rightarrow> decimal \<Rightarrow> string
    \<Rightarrow> (error + unit) \<times> db \<times> journal_entry" where
  "je_create d number dt kind amount st =
     je_save d \<lparr>je_id = new_je_id d, entry_number = number, je_date = dt, entry_type = kind,
                status = st, total_amount = amount\<rparr>"

text \<open>\<open>JournalEntryLine.objects.create(journal_entry=..., account=obj, ...)\<close>: the line keeps
  the account object it was given.\<close>

definition line_create :: "db \<Rightarrow> journal_entry \<Rightarrow> account \<Rightarrow> decimal \<Rightarrow> decimal
    \<Rightarrow> error + db" where
  "line_create d je acct debit credit =
     (case line_save d \<lparr>journal_entry = je_id je, account = acc_id acct,
                         debit_amount = debit, credit_amount = credit\<rparr> (Some acct) of
        (Inl err, d', a) \<Rightarrow> Inl err
      | (Inr u, d', a) \<Rightarrow> Inr d')"

text \<open>
  The body of the \<open>try\<close> of \<open>create_disposal_entry\<close>, inside \<open>transaction.atomic()\<close>: the
  database it leaves and the dictionary it returns, or the exception.
\<close>

definition disposal_journal :: "db \<Rightarrow> asset \<Rightarrow> date \<Rightarrow> decimal \<Rightarrow> decimal \<Rightarrow> decimal
    \<Rightarrow> error + (db \<times> disposal_result)" where
  "disposal_journal d a dt amount book_value_at_disposal gain_or_loss =
     (case je_create d (''DISP-'' @ asset_number a @ ''-'' @ strftime_Ymd dt) dt ''DISPOSAL''
             amount ''POSTED'' of
        (Inl err, d1, je) \<Rightarrow> Inl err
      | (Inr u, d1, je) \<Rightarrow>
     (case account_by_code d1 ''1000'' of
        Inl err \<Rightarrow> Inl err
      | Inr cash_account \<Rightarrow>
     (case account_by_code d1 (asset_account (category a)) of
        Inl err \<Rightarrow> Inl err
      | Inr asset_acc \<Rightarrow>
     (case account_by_code d1 (depreciation_account (category a)) of
        Inl err \<Rightarrow> Inl err
      | Inr accum_dep_account \<Rightarrow>
     (case (if amount > 0 then line_create d1 je cash_account amount 0 else Inr d1) of
        Inl err \<Rightarrow> Inl err
      | Inr d2 \<Rightarrow>
     (case line_create d2 je accum_dep_account (accumulated_depreciation a) 0 of
        Inl err \<Rightarrow> Inl err
      | Inr d3 \<Rightarrow>
     (case line_create d3 je asset_acc 0 (purchase_cost a) of
        Inl err \<Rightarrow> Inl err
      | Inr d4 \<Rightarrow>
          let res = \<lparr>journal_entry_id = je_id je, book_value = book_value_at_disposal,
                      result_disposal_amount = amount, gain_loss = gain_or_loss\<rparr>
          in if gain_or_loss \<noteq> 0
             then (case get_or_create_gain_loss d4 of
                     Inl err \<Rightarrow> Inl err
                   | Inr gain_loss_account \<Rightarrow>
                       (case (if gain_or_loss > 0
                              then line_create d4 je gain_loss_account 0 \<bar>gain_or_loss\<bar>
                              else line_create d4 je gain_loss_account \<bar>gain_or_loss\<bar> 0) of
                          Inl err \<Rightarrow> Inl err
                        | Inr d5 \<Rightarrow> Inr (d5, res)))
             else Inr (d4, res))))))))"

text \<open>
  \<open>Asset.create_disposal_entry\<close>: the outcome, the database and the asset object
  afterwards. An exception inside \<open>transaction.atomic()\<close> undoes the writes of the block.
\<close>

definition create_disposal_entry :: "env \<Rightarrow> db \<Rightarrow> asset \<Rightarrow> date \<Rightarrow> decimal \<Rightarrow> string
    \<Rightarrow> (error + disposal_result) \<times> db \<times> asset" where
  "create_disposal_entry en d a dt amount how =
     (let a1 = a\<lparr>asset_status := ''DISPOSED'', disposal_date := Some dt,
                 disposal_amount := Some amount, disposal_method := how\<rparr>;
          book_value_at_disposal = current_book_value a1;
          gain_or_loss = amount - book_value_at_disposal
      in case asset_save en a1 of
           Inl err \<Rightarrow> (Inl err, d, a1)
         | Inr a2 \<Rightarrow>
             (case disposal_journal d a2 dt amount book_value_at_disposal gain_or_loss of
                Inr (d', res) \<Rightarrow> (Inr res, d', a2)
              | Inl err \<Rightarrow>
                  let a3 = a2\<lparr>asset_status := ''ACTIVE'', disposal_date := None,
                              disposal_amount := None, disposal_method := []\<rparr>
                  in case asset_save en a3 of
                       Inl err2 \<Rightarrow> (Inl err2, d, a3)
                     | Inr a4 \<Rightarrow> (Inl err, d, a4)))"

subsection \<open>An asset bought a year ago\<close>

definition ex_category :: asset_category where
  "ex_category = \<lparr>cat_code = ''EQP'', cat_name = ''Equipment'',
      cat_depreciation_method = ''STRAIGHT_LINE'', asset_account = ''1500'',
      depreciation_account = ''1510'', expense_account = ''6200''\<rparr>"

definition ex_asset :: asset where
  "ex_asset = \<lparr>asset_number = ''EQP-2024-0001'', asset_name = ''Lift'', category = ex_category,
      purchase_cost = 10000, purchase_date = \<lparr>year = 2024, month = 3, day = 14\<rparr>,
      salvage_value = 1000, useful_life_years = 5, depreciation_method = ''DECLINING_BALANCE'',
      accumulated_depreciation = 0, current_book_value = 10000, last_depreciation_date = None,
      asset_status = ''ACTIVE'', disposal_date = None, disposal_amount = None,
      disposal_method = []\<rparr>"

definition ex_env :: env where
  "ex_env = \<lparr>today = ex_date, ctx = (\<lambda>x. x), assets_with_prefix = (\<lambda>p. 0)\<rparr>"

definition ex_env_2060 :: env where
  "ex_env_2060 = ex_env\<lparr>today := \<lparr>year = 2060, month = 1, day = 1\<rparr>\<rparr>"

definition ex_inactive_asset :: asset where
  "ex_inactive_asset = ex_asset\<lparr>asset_status := ''INACTIVE''\<rparr>"

section \<open>Sales: advances against commissions\<close>

record user =
  user_id :: nat
  role :: string

record commission =
  com_employee :: nat
  com_status :: string
  commission_amount :: decimal

record advance_payment =
  adv_employee :: nat
  requested_amount :: decimal
  approved_amount :: decimal
  available_commission :: decimal
  adv_status :: string
  requested_on :: date

record sales_db =
  commissions :: "commission list"
  advances :: "advance_payment list"

text \<open>
  What \<open>is_valid\<close> checks of \<open>requested_amount\<close>: the serializer's field, built from the
  model's \<open>DecimalField(max_digits=12, decimal_places=2)\<close> with its
  \<open>MinValueValidator(Decimal('0.01'))\<close>, admits at most two decimal places and ten digits
  before the point and no value under 0.01; then the source's own
  \<open>validate_requested_amount\<close> runs. The other fields of the request (reason, payment
  method and reference) do not enter the decisions below and are left out.
\<close>

definition validate_requested_amount :: "decimal \<Rightarrow> error + decimal" where
  "validate_requested_amount v =
     (if of_int \<lfloor>v * 100\<rfloor> \<noteq> v * 100
      then Inl (ValidationError ''Ensure that there are no more than 2 decimal places'')
      else if \<not> \<bar>v\<bar> < 10 ^ 10
      then Inl (ValidationError ''Ensure that there are no more than 12 digits in total'')
      else if v < 1 / 100
      then Inl (ValidationError ''Ensure this value is greater than or equal to 0.01'')
      else if v \<le> 0 then Inl (ValidationError ''Requested amount must be greater than zero'')
      else Inr v)"

text \<open>\<open>Commission.objects.filter(employee, status__in=[...]).aggregate(Sum(...))['total'] or 0\<close>\<close>

definition commission_total :: "sales_db \<Rightarrow> nat \<Rightarrow> string list \<Rightarrow> decimal" where
  "commission_total sd emp statuses =
     sum_list (map commission_amount
       (filter (\<lambda>c. com_employee c = emp \<and> com_status c \<in> set statuses) (commissions sd)))"

definition unrecovered_advances :: "sales_db \<Rightarrow> nat \<Rightarrow> decimal" where
  "unrecovered_advances sd emp =
     sum_list (map approved_amount
       (filter (\<lambda>p. adv_employee p = emp \<and> adv_status p \<in> set [''APPROVED'', ''PAID''])
          (advances sd)))"

text \<open>The \<open>available_commission\<close> that \<open>AdvancePaymentCreateSerializer.create\<close> computes.\<close>

definition available_commission_of :: "sales_db \<Rightarrow> nat \<Rightarrow> decimal" where
  "available_commission_of sd emp =
     max (commission_total sd emp [''AVAILABLE'', ''PAYABLE''] - unrecovered_advances sd emp) 0"

text \<open>An advance written as \<open>PAID\<close> at once, approved for the amount requested.\<close>

definition paid_advance :: "nat \<Rightarrow> decimal \<Rightarrow> decimal \<Rightarrow> date \<Rightarrow> advance_payment" where
  "paid_advance emp amount available dt =
     \<lparr>adv_employee = emp, requested_amount = amount, approved_amount = amount,
      available_commission = available, adv_status = ''PAID'', requested_on = dt\<rparr>"

text \<open>\<open>AdvancePaymentCreateSerializer.create\<close>; \<open>employee\<close> is the one named in the request,
  if any.\<close>

definition serializer_create :: "sales_db \<Rightarrow> user \<Rightarrow> nat option \<Rightarrow> decimal \<Rightarrow> date
    \<Rightarrow> (error + advance_payment) \<times> sales_db" where
  "serializer_create sd request_user employee amount dt =
     (let can_record_for_others = (role request_user \<in> set [''ADMIN'', ''MANAGER''])
      in
      if employee \<noteq> None \<and> \<not> can_record_for_others
      then (Inl (ValidationError ''You do not have permission to record advances for other employees''), sd)
      else
        let emp = (case employee of Some e \<Rightarrow> e | None \<Rightarrow> user_id request_user);
            existing_advance_today =
              list_ex (\<lambda>p. adv_employee p = emp \<and> requested_on p = dt) (advances sd)
        in
        if existing_advance_today
        then (Inl (ValidationError ''An advance payment has already been recorded for this employee today''), sd)
        else
          let available = available_commission_of sd emp
          in if amount > available
             then (Inl (ValidationError ''Requested amount exceeds available commission''), sd)
             else (Inr (paid_advance emp amount available dt),
                   sd\<lparr>advances := advances sd @ [paid_advance emp amount available dt]\<rparr>))"

text \<open>Requesting an advance: \<open>AdvancePaymentViewSet.create\<close>, that is \<open>is_valid\<close> and then the
  serializer's \<open>create\<close>.\<close>

definition request_advance :: "sales_db \<Rightarrow> user \<Rightarrow> nat option \<Rightarrow> decimal \<Rightarrow> date
    \<Rightarrow> (error + advance_payment) \<times> sales_db" where
  "request_advance sd request_user employee amount dt =
     (case validate_requested_amount amount of
        Inl err \<Rightarrow> (Inl err, sd)
      | Inr v \<Rightarrow> serializer_create sd request_user employee v dt)"

text \<open>
  \<open>AdvancePaymentViewSet.give_advance\<close>: \<open>is_valid\<close>, then the view's own check and
  \<open>AdvancePayment.objects.create\<close>; the serializer's \<open>create\<close> is not called. A refusal is
  the response with status 400.
\<close>

definition give_advance :: "sales_db \<Rightarrow> user \<Rightarrow> nat option \<Rightarrow> decimal \<Rightarrow> date
    \<Rightarrow> (error + advance_payment) \<times> sales_db" where
  "give_advance sd request_user employee amount dt =
     (case validate_requested_amount amount of
        Inl err \<Rightarrow> (Inl err, sd)
      | Inr requested \<Rightarrow>
          let employee_id = (case employee of Some e \<Rightarrow> e | None \<Rightarrow> user_id request_user);
              available_commissions = commission_total sd employee_id [''PAYABLE'']
          in if requested > available_commissions
             then (Inl (BadRequest ''Requested amount exceeds available payable commissions''), sd)
             else (Inr (paid_advance employee_id requested available_commissions dt),
                   sd\<lparr>advances := advances sd
                        @ [paid_advance employee_id requested available_commissions dt]\<rparr>))"

subsection \<open>An employee with 10000 of payable commission and an advance of 3000 paid\<close>

definition ex_manager :: user where
  "ex_manager = \<lparr>user_id = 1, role = ''MANAGER''\<rparr>"

definition ex_sales :: sales_db where
  "ex_sales =
     \<lparr>commissions = [\<lparr>com_employee = 7, com_status = ''PAYABLE'', commission_amount = 10000\<rparr>],
      advances = [paid_advance 7 3000 10000 \<lparr>year = 2025, month = 3, day = 1\<rparr>]\<rparr>"


section \<open>Properties of the ledger\<close>

lemmas ledger_defs = update_balance_def account_save_def get_account_def Let_def

text \<open>The definitions unfolded to run the examples.\<close>

lemmas ex_defs = ex_date_def ex_accounts_def ex_entry_def ex_line1_def ex_line2_def ex_db0_def
  ex_db_def ex_db_unbalanced_def

lemmas pred_defs = saved_entry_def balanced_def lines_all_def number_taken_def balance_ok_def
  type_balance_def debits_on_def credits_on_def fits_def row_fits_def posted_def reversed_def

lemmas run_defs = post_def reverse_def post_then_reverse_def line_save_def line_account_def
  post_line_def reverse_line_def je_save_def je_super_save_def upsert_def ledger_defs

lemmas ex_more_defs = ex_full_accounts_def ex_cent_credit_def ex_cent_debit_def ex_db_full_def
  ex_db_wrong_balance_def ex_debit_100_def ex_debit_150_def ex_two_objects_def
  ex_fresh_objects_def

text \<open>One line: the arithmetic of the rows.\<close>

lemma posted_debit:
  "debit_balance (posted rows l i) =
     debit_balance (rows i) + (if account l = i then debit_amount l else 0)"
  by (simp add: posted_def Let_def)

lemma posted_credit:
  "credit_balance (posted rows l i) =
     credit_balance (rows i) + (if account l = i then credit_amount l else 0)"
  by (simp add: posted_def Let_def)

lemma posted_type [simp]: "account_type (posted rows l i) = account_type (rows i)"
  by (simp add: posted_def Let_def)

lemma posted_other: "account l \<noteq> i \<Longrightarrow> posted rows l i = rows i"
  by (simp add: posted_def)

lemma posted_balance_ok: "balance_ok (rows i) \<Longrightarrow> balance_ok (posted rows l i)"
  by (simp add: posted_def Let_def balance_ok_def type_balance_def)

lemma posted_touched: "balance_ok (posted rows l (account l))"
  by (simp add: posted_def Let_def balance_ok_def type_balance_def)

lemma reversed_debit:
  "debit_balance (reversed rows l i) =
     debit_balance (rows i) - (if account l = i then debit_amount l else 0)"
  by (simp add: reversed_def Let_def)

lemma reversed_credit:
  "credit_balance (reversed rows l i) =
     credit_balance (rows i) - (if account l = i then credit_amount l else 0)"
  by (simp add: reversed_def Let_def)

lemma reversed_type [simp]: "account_type (reversed rows l i) = account_type (rows i)"
  by (simp add: reversed_def Let_def)

lemma reversed_other: "account l \<noteq> i \<Longrightarrow> reversed rows l i = rows i"
  by (simp add: reversed_def)

lemma reversed_balance_ok: "balance_ok (rows i) \<Longrightarrow> balance_ok (reversed rows l i)"
  by (simp add: reversed_def Let_def balance_ok_def type_balance_def)

text \<open>All the lines of an entry.\<close>

lemma all_posted_type [simp]: "account_type (foldl posted rows ls i) = account_type (rows i)"
  by (induction ls arbitrary: rows) simp_all

lemma all_posted_debit:
  "debit_balance (foldl posted rows ls i) = debit_balance (rows i) + debits_on i ls"
  by (induction ls arbitrary: rows) (simp_all add: debits_on_def posted_debit)

lemma all_posted_credit:
  "credit_balance (foldl posted rows ls i) = credit_balance (rows i) + credits_on i ls"
  by (induction ls arbitrary: rows) (simp_all add: credits_on_def posted_credit)

lemma all_posted_other: "i \<notin> account ` set ls \<Longrightarrow> foldl posted rows ls i = rows i"
  by (induction ls arbitrary: rows) (simp_all add: posted_other)

lemma all_posted_balance_ok: "balance_ok (rows i) \<Longrightarrow> balance_ok (foldl posted rows ls i)"
  by (induction ls arbitrary: rows) (simp_all add: posted_balance_ok)

lemma all_reversed_type [simp]: "account_type (foldl reversed rows ls i) = account_type (rows i)"
  by (induction ls arbitrary: rows) simp_all

lemma all_reversed_debit:
  "debit_balance (foldl reversed rows ls i) = debit_balance (rows i) - debits_on i ls"
  by (induction ls arbitrary: rows) (simp_all add: debits_on_def reversed_debit)

lemma all_reversed_credit:
  "credit_balance (foldl reversed rows ls i) = credit_balance (rows i) - credits_on i ls"
  by (induction ls arbitrary: rows) (simp_all add: credits_on_def reversed_credit)

lemma all_reversed_other: "i \<notin> account ` set ls \<Longrightarrow> foldl reversed rows ls i = rows i"
  by (induction ls arbitrary: rows) (simp_all add: reversed_other)

lemma all_reversed_balance_ok: "balance_ok (rows i) \<Longrightarrow> balance_ok (foldl reversed rows ls i)"
  by (induction ls arbitrary: rows) (simp_all add: reversed_balance_ok)

text \<open>The code against the arithmetic: a round of a loop writes the row, or raises and
  writes nothing.\<close>

lemma post_line_eq:
  "post_line d l =
     (if row_fits (posted (accounts d) l (account l))
      then (Inr (), d\<lparr>accounts := posted (accounts d) l\<rparr>)
      else (Inl InvalidOperation, d))"
  by (auto simp: post_line_def ledger_defs posted_def row_fits_def)

lemma reverse_line_eq:
  "reverse_line d l =
     (if row_fits (reversed (accounts d) l (account l))
      then (Inr (), d\<lparr>accounts := reversed (accounts d) l\<rparr>)
      else (Inl InvalidOperation, d))"
  by (auto simp: reverse_line_def ledger_defs reversed_def row_fits_def)

lemma post_loop_fits:
  "post_fits (accounts d) ls \<Longrightarrow>
   post_loop d ls = (Inr (), d\<lparr>accounts := foldl posted (accounts d) ls\<rparr>)"
  by (induction ls arbitrary: d) (simp_all add: post_line_eq)

lemma post_loop_overflow:
  "\<not> post_fits (accounts d) ls \<Longrightarrow> fst (post_loop d ls) = Inl InvalidOperation"
  by (induction ls arbitrary: d) (auto simp: post_line_eq)

lemma post_loop_entries [simp]: "entries (snd (post_loop d ls)) = entries d"
  by (induction ls arbitrary: d) (simp_all add: post_line_eq)

lemma post_loop_lines [simp]: "lines (snd (post_loop d ls)) = lines d"
  by (induction ls arbitrary: d) (simp_all add: post_line_eq)


lemma reverse_loop_fits:
  "reverse_fits (accounts d) ls \<Longrightarrow>
   reverse_loop d ls = (Inr (), d\<lparr>accounts := foldl reversed (accounts d) ls\<rparr>)"
  by (induction ls arbitrary: d) (simp_all add: reverse_line_eq)

lemma reverse_loop_overflow:
  "\<not> reverse_fits (accounts d) ls \<Longrightarrow> fst (reverse_loop d ls) = Inl InvalidOperation"
  by (induction ls arbitrary: d) (auto simp: reverse_line_eq)

lemma reverse_loop_entries [simp]: "entries (snd (reverse_loop d ls)) = entries d"
  by (induction ls arbitrary: d) (simp_all add: reverse_line_eq)

lemma reverse_loop_lines [simp]: "lines (snd (reverse_loop d ls)) = lines d"
  by (induction ls arbitrary: d) (simp_all add: reverse_line_eq)


text \<open>Saving an entry leaves accounts and lines alone.\<close>

lemma je_save_accounts [simp]: "accounts (fst (snd (je_save d e))) = accounts d"
  by (simp add: je_save_def je_super_save_def Let_def)

lemma je_save_lines [simp]: "lines (fst (snd (je_save d e))) = lines d"
  by (simp add: je_save_def je_super_save_def Let_def)

lemma je_save_status [simp]: "status (snd (snd (je_save d e))) = status e"
  by (simp add: je_save_def je_super_save_def Let_def)

lemma je_save_id [simp]: "je_id (snd (snd (je_save d e))) = je_id e"
  by (simp add: je_save_def je_super_save_def Let_def)

lemma je_save_saved:
  "saved_entry d e \<Longrightarrow> je_save d e = (Inr (), d\<lparr>entries := upsert (entries d) e\<rparr>, e)"
  by (simp add: je_save_def je_super_save_def saved_entry_def)

lemma number_taken_upsert:
  "\<not> number_taken es e \<Longrightarrow> entry_number e' = entry_number e \<Longrightarrow> je_id e' = je_id e \<Longrightarrow>
   \<not> number_taken (upsert es e) e'"
  by (auto simp: number_taken_def upsert_def split: if_splits)

lemma saved_entry_after:
  "saved_entry d e \<Longrightarrow> entries d' = upsert (entries d) (e\<lparr>status := s\<rparr>) \<Longrightarrow>
   saved_entry d' (e\<lparr>status := s\<rparr>)"
  unfolding saved_entry_def
  using number_taken_upsert [of "entries d" "e\<lparr>status := s\<rparr>" "e\<lparr>status := s\<rparr>"]
  by (simp add: number_taken_def)

lemma saved_entry_loop:
  "saved_entry d e \<Longrightarrow> entries d' = entries d \<Longrightarrow> saved_entry d' (e\<lparr>status := s\<rparr>)"
  by (simp add: saved_entry_def number_taken_def)

lemma stored_status_upsert:
  assumes "entries d' = upsert (entries d) e'" and "je_id e' = je_id e" and "status e' = s"
  shows "stored_status d' e s"
proof (cases "je_id e' \<in> set (map je_id (entries d))")
  case True
  then have es: "entries d' = map (\<lambda>r. if je_id r = je_id e' then e' else r) (entries d)"
    using assms(1) by (simp add: upsert_def)
  from True obtain r where "r \<in> set (entries d)" and "je_id r = je_id e'" by auto
  then have "e' \<in> set (entries d')" unfolding es by force
  then have ex: "list_ex (\<lambda>r. je_id r = je_id e) (entries d')"
    using assms(2) by (auto simp: list_ex_iff)
  have "\<forall>r \<in> set (entries d'). je_id r = je_id e \<longrightarrow> status r = s"
    unfolding es using assms(2,3) by auto
  then show ?thesis using ex by (simp add: stored_status_def list_all_iff)
next
  case False
  then have es: "entries d' = entries d @ [e']" using assms(1) by (simp add: upsert_def)
  have ex: "list_ex (\<lambda>r. je_id r = je_id e) (entries d')"
    unfolding es using assms(2) by (simp add: list_ex_iff)
  have "\<forall>r \<in> set (entries d'). je_id r = je_id e \<longrightarrow> status r = s"
  proof (intro ballI impI)
    fix r assume r: "r \<in> set (entries d')" and k: "je_id r = je_id e"
    show "status r = s"
    proof (cases "r = e'")
      case True
      then show ?thesis using assms(3) by simp
    next
      case False
      with r have "r \<in> set (entries d)" unfolding es by simp
      then have "je_id r \<in> set (map je_id (entries d))" by simp
      then show ?thesis using \<open>je_id e' \<notin> set (map je_id (entries d))\<close> k assms(2) by simp
    qed
  qed
  then show ?thesis using ex by (simp add: stored_status_def list_all_iff)
qed

lemma lines_all_entries_upd [simp]: "lines_all (d\<lparr>entries := es\<rparr>) e = lines_all d e"
  by (simp add: lines_all_def)

lemma lines_all_accounts_upd [simp]: "lines_all (d\<lparr>accounts := rows\<rparr>) e = lines_all d e"
  by (simp add: lines_all_def)

lemma lines_all_status [simp]: "lines_all d (e\<lparr>status := s\<rparr>) = lines_all d e"
  by (simp add: lines_all_def)

lemma post_draft_unbalanced:
  "status e = ''DRAFT'' \<Longrightarrow> \<not> balanced d e \<Longrightarrow>
   post d e = (Inl (ValueError ''Debits must equal credits''), d, e)"
  by (simp add: post_def balanced_def Let_def)

lemma post_not_draft:
  "status e \<noteq> ''DRAFT'' \<Longrightarrow> post d e = (Inl (ValueError ''Only draft entries can be posted''), d, e)"
  by (simp add: post_def)

lemma post_draft_balanced:
  assumes "status e = ''DRAFT''" and "saved_entry d e" and "balanced d e"
    and "post_fits (accounts d) (lines_all d e)"
  shows "post d e =
     (Inr (), d\<lparr>accounts := foldl posted (accounts d) (lines_all d e),
                entries := upsert (entries d) (e\<lparr>status := ''POSTED''\<rparr>)\<rparr>,
      e\<lparr>status := ''POSTED''\<rparr>)"
proof -
  let ?d1 = "d\<lparr>accounts := foldl posted (accounts d) (lines_all d e)\<rparr>"
  have "saved_entry ?d1 (e\<lparr>status := ''POSTED''\<rparr>)"
    using assms(2) by (rule saved_entry_loop) simp
  then have "je_save ?d1 (e\<lparr>status := ''POSTED''\<rparr>) =
     (Inr (), ?d1\<lparr>entries := upsert (entries ?d1) (e\<lparr>status := ''POSTED''\<rparr>)\<rparr>, e\<lparr>status := ''POSTED''\<rparr>)"
    by (rule je_save_saved)
  then show ?thesis
    using assms(1,3) post_loop_fits [OF assms(4)] by (simp add: post_def balanced_def Let_def)
qed

lemma post_draft_overflow:
  assumes "status e = ''DRAFT''" and "balanced d e"
    and "\<not> post_fits (accounts d) (lines_all d e)"
  shows "fst (post d e) = Inl InvalidOperation"
proof -
  obtain r d' where p: "post_loop d (lines_all d e) = (r, d')" by (cases "post_loop d (lines_all d e)")
  then have "r = Inl InvalidOperation" using post_loop_overflow [OF assms(3)] by simp
  then show ?thesis using assms(1,2) p by (simp add: post_def balanced_def Let_def)
qed

lemma reverse_not_posted:
  "status e \<noteq> ''POSTED'' \<Longrightarrow>
   reverse d e = (Inl (ValueError ''Only posted entries can be reversed''), d, e)"
  by (simp add: reverse_def)

lemma reverse_posted:
  assumes "status e = ''POSTED''" and "saved_entry d e"
    and "reverse_fits (accounts d) (lines_all d e)"
  shows "reverse d e =
     (Inr (), d\<lparr>accounts := foldl reversed (accounts d) (lines_all d e),
                entries := upsert (entries d) (e\<lparr>status := ''REVERSED''\<rparr>)\<rparr>,
      e\<lparr>status := ''REVERSED''\<rparr>)"
proof -
  let ?d1 = "d\<lparr>accounts := foldl reversed (accounts d) (lines_all d e)\<rparr>"
  have "saved_entry ?d1 (e\<lparr>status := ''REVERSED''\<rparr>)"
    using assms(2) by (rule saved_entry_loop) simp
  then have "je_save ?d1 (e\<lparr>status := ''REVERSED''\<rparr>) =
     (Inr (), ?d1\<lparr>entries := upsert (entries ?d1) (e\<lparr>status := ''REVERSED''\<rparr>)\<rparr>, e\<lparr>status := ''REVERSED''\<rparr>)"
    by (rule je_save_saved)
  then show ?thesis
    using assms(1) reverse_loop_fits [OF assms(3)] by (simp add: reverse_def)
qed

text \<open>
  Claim C1, amended. For a stored journal entry whose status is DRAFT, \<open>post\<close> succeeds
  if and only if the debit amounts of its lines sum to the same value as the credit amounts
  and every account row the posting writes fits its columns; it then leaves the entry
  POSTED, the object and the stored row. When the sums differ \<open>post\<close> raises and returns the
  database and the entry as they were, so every account keeps its \<open>debit_balance\<close>,
  \<open>credit_balance\<close> and \<open>balance\<close> and the entry stays DRAFT. On an entry whose status is
  not DRAFT, \<open>post\<close> always raises, again changing nothing.
\<close>

theorem post_zero_sum_within_columns:
  "(status e = ''DRAFT'' \<and> saved_entry d e \<longrightarrow>
      ((fst (post d e) = Inr ()) = (balanced d e \<and> post_fits (accounts d) (lines_all d e))) \<and>
      (fst (post d e) = Inr () \<longrightarrow>
         status (snd (snd (post d e))) = ''POSTED'' \<and>
         stored_status (fst (snd (post d e))) e ''POSTED'') \<and>
      (\<not> balanced d e \<longrightarrow> (\<exists>err. post d e = (Inl err, d, e))))
   \<and> (status e \<noteq> ''DRAFT'' \<longrightarrow> (\<exists>err. post d e = (Inl err, d, e)))"
proof (intro conjI impI)
  assume a: "status e = ''DRAFT'' \<and> saved_entry d e"
  show iff: "(fst (post d e) = Inr ()) = (balanced d e \<and> post_fits (accounts d) (lines_all d e))"
  proof (cases "balanced d e")
    case False
    then show ?thesis using a post_draft_unbalanced [of e d] by simp
  next
    case True
    show ?thesis
    proof (cases "post_fits (accounts d) (lines_all d e)")
      case True
      then show ?thesis using a \<open>balanced d e\<close> post_draft_balanced [of e d] by simp
    next
      case False
      then show ?thesis using a \<open>balanced d e\<close> post_draft_overflow [of e d] by simp
    qed
  qed
  {
    assume "fst (post d e) = Inr ()"
    then have b: "balanced d e" and f: "post_fits (accounts d) (lines_all d e)"
      using iff by simp_all
    note p = post_draft_balanced [of e d, OF _ _ b f]
    show "status (snd (snd (post d e))) = ''POSTED''" using a p by simp
    show "stored_status (fst (snd (post d e))) e ''POSTED''"
      using a p by (intro stored_status_upsert [of _ d "e\<lparr>status := ''POSTED''\<rparr>"]) simp_all
  }
next
  assume "status e = ''DRAFT'' \<and> saved_entry d e" and "\<not> balanced d e"
  then show "\<exists>err. post d e = (Inl err, d, e)"
    using post_draft_unbalanced [of e d] by simp
next
  assume "status e \<noteq> ''DRAFT''"
  then show "\<exists>err. post d e = (Inl err, d, e)"
    using post_not_draft [of e d] by simp
qed

theorem post_zero_sum_within_columns_witness:
  "status ex_entry = ''DRAFT'' \<and> saved_entry ex_db ex_entry \<and> balanced ex_db ex_entry
   \<and> post_fits (accounts ex_db) (lines_all ex_db ex_entry)
   \<and> fst (post ex_db ex_entry) = Inr ()
   \<and> status (snd (snd (post ex_db ex_entry))) = ''POSTED''
   \<and> stored_status (fst (snd (post ex_db ex_entry))) ex_entry ''POSTED''
   \<and> saved_entry ex_db_unbalanced ex_entry \<and> \<not> balanced ex_db_unbalanced ex_entry
   \<and> (\<exists>err. post ex_db_unbalanced ex_entry = (Inl err, ex_db_unbalanced, ex_entry))
   \<and> saved_entry ex_db_full ex_entry \<and> balanced ex_db_full ex_entry
   \<and> \<not> post_fits (accounts ex_db_full) (lines_all ex_db_full ex_entry)
   \<and> fst (post ex_db_full ex_entry) \<noteq> Inr ()
   \<and> status (ex_entry\<lparr>status := ''POSTED''\<rparr>) \<noteq> ''DRAFT''
   \<and> (\<exists>err. post ex_db (ex_entry\<lparr>status := ''POSTED''\<rparr>) = (Inl err, ex_db, ex_entry\<lparr>status := ''POSTED''\<rparr>))"
proof -
  have h1: "status ex_entry = ''DRAFT'' \<and> saved_entry ex_db ex_entry"
    by (simp add: ex_defs pred_defs)
  have h2: "balanced ex_db ex_entry \<and> post_fits (accounts ex_db) (lines_all ex_db ex_entry)"
    by (simp add: ex_defs pred_defs)
  have h3: "status ex_entry = ''DRAFT'' \<and> saved_entry ex_db_unbalanced ex_entry"
    by (simp add: ex_defs pred_defs)
  have h4: "\<not> balanced ex_db_unbalanced ex_entry" by (simp add: ex_defs pred_defs)
  have h5: "status (ex_entry\<lparr>status := ''POSTED''\<rparr>) \<noteq> ''DRAFT''" by simp
  have h6: "saved_entry ex_db_full ex_entry \<and> balanced ex_db_full ex_entry"
    by (simp add: ex_defs ex_more_defs pred_defs)
  have h7: "\<not> post_fits (accounts ex_db_full) (lines_all ex_db_full ex_entry)"
    by (simp add: ex_defs ex_more_defs pred_defs)
  show ?thesis
    using h1 h2 h3 h4 h5 h6 h7 post_zero_sum_within_columns [of ex_entry ex_db]
      post_zero_sum_within_columns [of ex_entry ex_db_unbalanced]
      post_zero_sum_within_columns [of ex_entry ex_db_full]
      post_zero_sum_within_columns [of "ex_entry\<lparr>status := ''POSTED''\<rparr>" ex_db]
    by simp
qed

text \<open>
  As the specification states it, with every balanced DRAFT entry posting, the claim fails
  where a total reaches the end of its column: the entry credits a cent to account 2 and debits a cent to
  account 1, which stands at 9999999999999.99. The save of account 1 raises, \<open>post\<close> with
  it, and the cent already credited to account 2 stays.
\<close>

theorem post_zero_sum_counterexample:
  "status ex_entry = ''DRAFT'' \<and> saved_entry ex_db_full ex_entry \<and> balanced ex_db_full ex_entry
   \<and> fst (post ex_db_full ex_entry) = Inl InvalidOperation
   \<and> credit_balance (accounts ex_db_full 2) = 0
   \<and> credit_balance (accounts (fst (snd (post ex_db_full ex_entry))) 2) = 1 / 100"
  by (simp add: ex_defs ex_more_defs pred_defs run_defs)

text \<open>Posting and then reversing.\<close>

lemma post_then_reverse_eq:
  assumes "status e = ''DRAFT''" and "saved_entry d e" and "balanced d e"
    and "post_fits (accounts d) (lines_all d e)"
    and "reverse_fits (foldl posted (accounts d) (lines_all d e)) (lines_all d e)"
  shows "post_then_reverse d e =
     (Inr (),
      d\<lparr>accounts := foldl reversed (foldl posted (accounts d) (lines_all d e)) (lines_all d e),
        entries := upsert (upsert (entries d) (e\<lparr>status := ''POSTED''\<rparr>)) (e\<lparr>status := ''REVERSED''\<rparr>)\<rparr>,
      e\<lparr>status := ''REVERSED''\<rparr>)"
proof -
  let ?e1 = "e\<lparr>status := ''POSTED''\<rparr>"
  let ?d1 = "d\<lparr>accounts := foldl posted (accounts d) (lines_all d e),
               entries := upsert (entries d) ?e1\<rparr>"
  have p: "post d e = (Inr (), ?d1, ?e1)" using assms(1-4) by (rule post_draft_balanced)
  have s: "saved_entry ?d1 ?e1" using assms(2) by (rule saved_entry_after) simp
  have st: "status ?e1 = ''POSTED''" by simp
  have f: "reverse_fits (accounts ?d1) (lines_all ?d1 ?e1)" using assms(5) by simp
  have "reverse ?d1 ?e1 =
     (Inr (), ?d1\<lparr>accounts := foldl reversed (accounts ?d1) (lines_all ?d1 ?e1),
                  entries := upsert (entries ?d1) (?e1\<lparr>status := ''REVERSED''\<rparr>)\<rparr>,
      ?e1\<lparr>status := ''REVERSED''\<rparr>)"
    using st s f by (rule reverse_posted)
  then show ?thesis unfolding post_then_reverse_def p by simp
qed

text \<open>
  Claim C2, amended. For a stored, balanced DRAFT entry, when every account row written
  by \<open>post\<close> and then by \<open>reverse\<close> fits its columns, \<open>post\<close> followed by \<open>reverse\<close>
  succeeds, leaves the entry REVERSED, the object and the stored row, and returns every
  account to the \<open>debit_balance\<close> and \<open>credit_balance\<close> it had before; \<open>balance\<close> is
  recomputed from them by the account's type, so it is the one before \<open>post\<close> for every
  account that satisfied the balance formula of its type then. \<open>reverse\<close> on an entry whose
  status is not POSTED always raises and changes nothing.
\<close>

theorem post_reverse_inverse_within_columns:
  "(status e = ''DRAFT'' \<and> saved_entry d e \<and> balanced d e
      \<and> post_fits (accounts d) (lines_all d e)
      \<and> reverse_fits (foldl posted (accounts d) (lines_all d e)) (lines_all d e) \<longrightarrow>
      fst (post_then_reverse d e) = Inr () \<and>
      status (snd (snd (post_then_reverse d e))) = ''REVERSED'' \<and>
      stored_status (fst (snd (post_then_reverse d e))) e ''REVERSED'' \<and>
      (\<forall>i. debit_balance (accounts (fst (snd (post_then_reverse d e))) i) = debit_balance (accounts d i) \<and>
           credit_balance (accounts (fst (snd (post_then_reverse d e))) i) = credit_balance (accounts d i) \<and>
           (balance_ok (accounts d i) \<longrightarrow>
              balance (accounts (fst (snd (post_then_reverse d e))) i) = balance (accounts d i))))
   \<and> (status e \<noteq> ''POSTED'' \<longrightarrow> (\<exists>err. reverse d e = (Inl err, d, e)))"
proof (intro conjI impI allI)
  assume a: "status e = ''DRAFT'' \<and> saved_entry d e \<and> balanced d e
      \<and> post_fits (accounts d) (lines_all d e)
      \<and> reverse_fits (foldl posted (accounts d) (lines_all d e)) (lines_all d e)"
  let ?ls = "lines_all d e"
  let ?rows = "foldl reversed (foldl posted (accounts d) ?ls) ?ls"
  have eq: "post_then_reverse d e =
     (Inr (),
      d\<lparr>accounts := ?rows,
        entries := upsert (upsert (entries d) (e\<lparr>status := ''POSTED''\<rparr>)) (e\<lparr>status := ''REVERSED''\<rparr>)\<rparr>,
      e\<lparr>status := ''REVERSED''\<rparr>)"
    using a by (intro post_then_reverse_eq) simp_all
  show "fst (post_then_reverse d e) = Inr ()" by (simp add: eq)
  show "status (snd (snd (post_then_reverse d e))) = ''REVERSED''" by (simp add: eq)
  show "stored_status (fst (snd (post_then_reverse d e))) e ''REVERSED''"
    by (rule stored_status_upsert
         [of _ "d\<lparr>entries := upsert (entries d) (e\<lparr>status := ''POSTED''\<rparr>)\<rparr>" "e\<lparr>status := ''REVERSED''\<rparr>"])
       (simp_all add: eq)
  fix i
  show dr: "debit_balance (accounts (fst (snd (post_then_reverse d e))) i) = debit_balance (accounts d i)"
    by (simp add: eq all_reversed_debit all_posted_debit)
  show cr: "credit_balance (accounts (fst (snd (post_then_reverse d e))) i) = credit_balance (accounts d i)"
    by (simp add: eq all_reversed_credit all_posted_credit)
  assume ok: "balance_ok (accounts d i)"
  have "balance_ok (?rows i)"
    using ok by (intro all_reversed_balance_ok all_posted_balance_ok)
  then have "balance (?rows i) = type_balance (?rows i)" by (simp add: balance_ok_def)
  also have "\<dots> = type_balance (accounts d i)"
    by (simp add: type_balance_def all_reversed_debit all_posted_debit all_reversed_credit
        all_posted_credit)
  also have "\<dots> = balance (accounts d i)" using ok by (simp add: balance_ok_def)
  finally show "balance (accounts (fst (snd (post_then_reverse d e))) i) = balance (accounts d i)"
    by (simp add: eq)
next
  assume "status e \<noteq> ''POSTED''"
  then show "\<exists>err. reverse d e = (Inl err, d, e)"
    using reverse_not_posted [of e d] by simp
qed

theorem post_reverse_inverse_within_columns_witness:
  "status ex_entry = ''DRAFT'' \<and> saved_entry ex_db ex_entry \<and> balanced ex_db ex_entry
   \<and> post_fits (accounts ex_db) (lines_all ex_db ex_entry)
   \<and> reverse_fits (foldl posted (accounts ex_db) (lines_all ex_db ex_entry)) (lines_all ex_db ex_entry)
   \<and> balance_ok (accounts ex_db 1)
   \<and> fst (post_then_reverse ex_db ex_entry) = Inr ()
   \<and> status (snd (snd (post_then_reverse ex_db ex_entry))) = ''REVERSED''
   \<and> stored_status (fst (snd (post_then_reverse ex_db ex_entry))) ex_entry ''REVERSED''
   \<and> debit_balance (accounts (fst (snd (post_then_reverse ex_db ex_entry))) 1) = 0
   \<and> credit_balance (accounts (fst (snd (post_then_reverse ex_db ex_entry))) 1) = 0
   \<and> balance (accounts (fst (snd (post_then_reverse ex_db ex_entry))) 1) = 0
   \<and> status ex_entry \<noteq> ''POSTED''
   \<and> (\<exists>err. reverse ex_db ex_entry = (Inl err, ex_db, ex_entry))"
proof -
  have h1: "status ex_entry = ''DRAFT'' \<and> saved_entry ex_db ex_entry \<and> balanced ex_db ex_entry"
    by (simp add: ex_defs pred_defs)
  have h2: "post_fits (accounts ex_db) (lines_all ex_db ex_entry)
    \<and> reverse_fits (foldl posted (accounts ex_db) (lines_all ex_db ex_entry)) (lines_all ex_db ex_entry)"
    by (simp add: ex_defs pred_defs)
  have h3: "balance_ok (accounts ex_db 1)" by (simp add: ex_defs pred_defs)
  have h4: "status ex_entry \<noteq> ''POSTED''" by (simp add: ex_defs)
  have v: "debit_balance (accounts ex_db 1) = 0 \<and> credit_balance (accounts ex_db 1) = 0
     \<and> balance (accounts ex_db 1) = 0" by (simp add: ex_defs)
  show ?thesis
    using h1 h2 h3 h4 v post_reverse_inverse_within_columns [of ex_entry ex_db] by simp
qed

text \<open>
  As the specification states it, the claim fails at the end of a column: \<open>post\<close> raises after crediting
  account 2, the entry stays DRAFT and the cent stays on account 2. It also fails for an
  account whose \<open>balance\<close> did not follow from its totals: a balance of 500 over totals of
  zero comes back as 0.
\<close>

theorem post_reverse_inverse_counterexample:
  "status ex_entry = ''DRAFT'' \<and> saved_entry ex_db_full ex_entry \<and> balanced ex_db_full ex_entry
   \<and> fst (post_then_reverse ex_db_full ex_entry) = Inl InvalidOperation
   \<and> status (snd (snd (post_then_reverse ex_db_full ex_entry))) = ''DRAFT''
   \<and> credit_balance (accounts ex_db_full 2) = 0
   \<and> credit_balance (accounts (fst (snd (post_then_reverse ex_db_full ex_entry))) 2) = 1 / 100
   \<and> saved_entry ex_db_wrong_balance ex_entry \<and> balanced ex_db_wrong_balance ex_entry
   \<and> fst (post_then_reverse ex_db_wrong_balance ex_entry) = Inr ()
   \<and> balance (accounts ex_db_wrong_balance 1) = 500
   \<and> balance (accounts (fst (snd (post_then_reverse ex_db_wrong_balance ex_entry))) 1) = 0"
  by (simp add: ex_defs ex_more_defs pred_defs run_defs)

section \<open>The balance of an account follows from its totals\<close>

lemma post_result_accounts:
  "accounts (fst (snd (post d e))) = accounts d
   \<or> accounts (fst (snd (post d e))) = accounts (snd (post_loop d (lines_all d e)))"
proof -
  obtain r d' where p: "post_loop d (lines_all d e) = (r, d')"
    by (cases "post_loop d (lines_all d e)")
  show ?thesis by (cases r) (simp_all add: post_def Let_def p)
qed

lemma reverse_result_accounts:
  "accounts (fst (snd (reverse d e))) = accounts d
   \<or> accounts (fst (snd (reverse d e))) = accounts (snd (reverse_loop d (lines_all d e)))"
proof -
  obtain r d' where p: "reverse_loop d (lines_all d e) = (r, d')"
    by (cases "reverse_loop d (lines_all d e)")
  show ?thesis by (cases r) (simp_all add: reverse_def p)
qed



lemma line_save_entries [simp]: "entries (fst (snd (line_save d l c))) = entries d"
  by (simp add: line_save_def ledger_defs)







section \<open>Lines saved before the entry is posted\<close>







section \<open>Entry numbering\<close>

lemmas string_defs = py_str_def format_06d_def zfill.simps digits_of.simps digit_char_def
  split_last_def py_int_def strip_def is_space_def is_digit_def digit_val_def

lemmas ex_2025_defs = ex_entries_2025_def ex_numbered_def ex_new_entry_def ex_db_2025_def

lemma generate_first_of_year:
  "filter (\<lambda>e. year (je_date e) = year d) es = [] \<Longrightarrow>
   generate_entry_number es d = py_str (year d) @ ''-000001''"
  by (simp add: generate_entry_number_def)

lemma generate_first_2025: "generate_entry_number [] ex_date = ''2025-000001''"
  by (simp add: generate_entry_number_def ex_date_def string_defs)

lemma generate_second_2025:
  "generate_entry_number [ex_numbered 1 ''2025-000001'' ''PURCHASE''] ex_date = ''2025-000002''"
  by (simp add: generate_entry_number_def ex_numbered_def ex_date_def string_defs)

text \<open>
  Claim C5. A journal entry saved without a number should get the year, a hyphen and the
  greatest numeric suffix among the entries of that year plus one, on six digits, whatever
  the formats of the other numbers of the year. The code takes the suffix of the entry whose
  number is last in string order instead: with the entries \<open>2025-000001\<close>, \<open>2025-000002\<close> and
  \<open>PURCH-EQP-2025-0001\<close> dated 2025 it generates \<open>2025-000002\<close>, not \<open>2025-000003\<close>, and
  the save is refused because that number is taken.
\<close>

theorem entry_number_not_max_suffix:
  "list_all (\<lambda>e. year (je_date e) = 2025) ex_entries_2025
   \<and> year (je_date ex_new_entry) = 2025
   \<and> numeric_suffixes ex_entries_2025 (je_date ex_new_entry) = [1, 2, 1]
   \<and> entry_number_by_max_suffix ex_entries_2025 (je_date ex_new_entry) = ''2025-000003''
   \<and> generate_entry_number ex_entries_2025 (je_date ex_new_entry) = ''2025-000002''
   \<and> fst (je_save ex_db_2025 ex_new_entry) = Inl (IntegrityError ''entry_number'')"
  by (simp add: generate_entry_number_def numeric_suffixes_def entry_number_by_max_suffix_def
      je_save_def je_super_save_def number_taken_def fits_def ex_2025_defs ex_defs string_defs)

section \<open>Line saves and the balances of accounts\<close>

text \<open>Posting and reversing leave alone every account the entry has no line for.\<close>

lemma post_loop_other:
  "i \<notin> account ` set ls \<Longrightarrow> accounts (snd (post_loop d ls)) i = accounts d i"
  by (induction ls arbitrary: d) (simp_all add: post_line_eq posted_other)

lemma reverse_loop_other:
  "i \<notin> account ` set ls \<Longrightarrow> accounts (snd (reverse_loop d ls)) i = accounts d i"
  by (induction ls arbitrary: d) (simp_all add: reverse_line_eq reversed_other)

lemma post_frame:
  "i \<notin> account ` set (lines_all d e) \<Longrightarrow> accounts (fst (snd (post d e))) i = accounts d i"
  using post_result_accounts [of d e] post_loop_other [of i "lines_all d e" d] by auto

lemma reverse_frame:
  "i \<notin> account ` set (lines_all d e) \<Longrightarrow> accounts (fst (snd (reverse d e))) i = accounts d i"
  using reverse_result_accounts [of d e] reverse_loop_other [of i "lines_all d e" d] by auto

text \<open>
  Claim C3. Account balances should change only when an entry with a line for the account is
  posted or reversed, and saving a line of a DRAFT entry should leave them alone. In the code
  \<open>JournalEntryLine.save\<close> updates the account at once: saving the debit line of 250 of the
  DRAFT entry raises the \<open>debit_balance\<close> and the \<open>balance\<close> of account 1 from 0 to 250,
  while the entry is still the DRAFT row it was.
\<close>

theorem line_save_on_draft_entry:
  "status ex_entry = ''DRAFT''
   \<and> entries ex_db0 = [ex_entry]
   \<and> debit_balance (accounts ex_db0 1) = 0
   \<and> balance (accounts ex_db0 1) = 0
   \<and> fst (line_save ex_db0 ex_line1 None) = Inr ()
   \<and> entries (fst (snd (line_save ex_db0 ex_line1 None))) = [ex_entry]
   \<and> debit_balance (accounts (fst (snd (line_save ex_db0 ex_line1 None))) 1) = 250
   \<and> balance (accounts (fst (snd (line_save ex_db0 ex_line1 None))) 1) = 250"
  by (simp add: run_defs pred_defs ex_defs)

section \<open>Depreciation stays within the depreciable amount\<close>

lemmas ex_asset_defs = ex_category_def ex_asset_def ex_env_def ex_env_2060_def ex_inactive_asset_def
  ex_date_def

lemmas asset_defs0 = calculate_current_values_def straight_line_total_def decimal_div_def
  method_of_def date_gt_def quantize_def depreciation_rate_def asset_save_def Let_def

text \<open>Floors of quotients of numerals, for running the examples.\<close>

lemma floor_numeral_div:
  "\<lfloor>(numeral a :: rat) / numeral b\<rfloor> = numeral a div numeral b"
  using floor_divide_of_int_eq [of "numeral a" "numeral b", where ?'a = rat] by simp

lemmas asset_defs = asset_defs0 floor_numeral_div

lemma two_places_iff: "two_places x \<longleftrightarrow> (\<exists>k::int. x = of_int k / 100)"
proof
  assume "two_places x"
  then have a: "of_int \<lfloor>x * 100\<rfloor> = x * 100" by (simp only: two_places_def)
  have "x = (x * 100) / 100" by simp
  then have "x = of_int \<lfloor>x * 100\<rfloor> / 100" by (simp only: a)
  then show "\<exists>k::int. x = of_int k / 100" by blast
next
  assume "\<exists>k::int. x = of_int k / 100"
  then obtain k :: int where "x = of_int k / 100" by blast
  then have "x * 100 = of_int k" by simp
  then show "two_places x" by (simp only: two_places_def floor_of_int)
qed

lemma quantize_le:
  assumes "two_places m" and "x \<le> m"
  shows "quantize x \<le> m"
proof -
  from assms(1) obtain k :: int where m: "m = of_int k / 100" by (auto simp: two_places_iff)
  have xk: "x * 100 \<le> of_int k" using assms(2) m by simp
  show ?thesis
  proof (cases "0 \<le> x")
    case True
    have "x * 100 + 1 / 2 < of_int (k + 1)" using xk by simp
    then have "\<lfloor>x * 100 + 1 / 2\<rfloor> < k + 1" by (simp only: floor_less_iff)
    then have "\<lfloor>x * 100 + 1 / 2\<rfloor> \<le> k" by simp
    then have "(of_int \<lfloor>x * 100 + 1 / 2\<rfloor> :: rat) \<le> of_int k" by (simp only: of_int_le_iff)
    then show ?thesis using True by (simp add: quantize_def m divide_right_mono)
  next
    case False
    have "of_int (- k) \<le> - x * 100 + 1 / 2" using xk by simp
    then have "- k \<le> \<lfloor>- x * 100 + 1 / 2\<rfloor>" by (simp only: le_floor_iff)
    then have "(of_int (- k) :: rat) \<le> of_int \<lfloor>- x * 100 + 1 / 2\<rfloor>" by (simp only: of_int_le_iff)
    then have "- (of_int \<lfloor>- x * 100 + 1 / 2\<rfloor> :: rat) \<le> of_int k" by simp
    then have "- (of_int \<lfloor>- x * 100 + 1 / 2\<rfloor> :: rat) / 100 \<le> of_int k / 100"
      by (rule divide_right_mono) simp
    then show ?thesis using False by (simp add: quantize_def m)
  qed
qed

lemma two_places_quantize: "two_places (quantize x)"
proof (cases "0 \<le> x")
  case True
  then show ?thesis unfolding two_places_iff quantize_def by auto
next
  case False
  have "- (of_int \<lfloor>- x * 100 + 1 / 2\<rfloor> / 100) = (of_int (- \<lfloor>- x * 100 + 1 / 2\<rfloor>) / 100 :: rat)"
    by simp
  then show ?thesis unfolding two_places_iff quantize_def using False by (auto simp only: if_False)
qed

lemma quantize_two_places:
  assumes "two_places x"
  shows "quantize x = x"
proof -
  from assms obtain k :: int where x: "x = of_int k / 100" by (auto simp: two_places_iff)
  have x100: "x * 100 = of_int k" using x by simp
  have a: "\<lfloor>(of_int k :: rat) + 1 / 2\<rfloor> = k" by linarith
  have b: "\<lfloor>- (of_int k :: rat) + 1 / 2\<rfloor> = - k" by linarith
  show ?thesis
  proof (cases "0 \<le> x")
    case True
    then have "quantize x = of_int \<lfloor>x * 100 + 1 / 2\<rfloor> / 100" by (simp only: quantize_def if_True)
    also have "\<dots> = of_int k / 100" by (simp only: x100 a)
    finally show ?thesis by (simp only: x)
  next
    case False
    have m: "- x * 100 = - (of_int k :: rat)" using x100 by simp
    from False have "quantize x = - (of_int \<lfloor>- x * 100 + 1 / 2\<rfloor> / 100)"
      by (simp only: quantize_def if_False)
    also have "\<dots> = - (of_int (- k) / 100)" by (simp only: m b)
    also have "\<dots> = of_int k / 100" by simp
    finally show ?thesis by (simp only: x)
  qed
qed

lemma two_places_diff:
  assumes "two_places x" and "two_places y"
  shows "two_places (x - y)"
proof -
  from assms obtain k l :: int where "x = of_int k / 100" and "y = of_int l / 100"
    by (auto simp: two_places_iff)
  then have "x - y = of_int (k - l) / 100" by (simp add: diff_divide_distrib)
  then show ?thesis unfolding two_places_iff by blast
qed

text \<open>The last lines of \<open>calculate_current_values\<close>: clamp and round.\<close>

lemma clamp_and_round:
  assumes "two_places cost" and "two_places salvage"
  shows "quantize (min t (cost - salvage)) \<le> cost - salvage"
    and "salvage \<le> quantize (cost - quantize (min t (cost - salvage)))"
proof -
  let ?acc = "quantize (min t (cost - salvage))"
  have tp: "two_places (cost - salvage)" using assms by (rule two_places_diff)
  show le: "?acc \<le> cost - salvage" using tp by (rule quantize_le) simp
  have "two_places (cost - ?acc)" using assms(1) two_places_quantize by (rule two_places_diff)
  then have "quantize (cost - ?acc) = cost - ?acc" by (rule quantize_two_places)
  then show "salvage \<le> quantize (cost - ?acc)" using le by simp
qed

lemma straight_line_total_ok:
  "0 < useful_life_years a \<Longrightarrow> \<exists>t. straight_line_total en a m = Inr t"
  by (simp add: straight_line_total_def decimal_div_def)

lemma calculate_current_values_owned:
  assumes "asset_status a \<notin> set [''DISPOSED'', ''SOLD'']"
    and "\<not> date_gt (purchase_date a) (today en)"
    and "m = (year (today en) - year (purchase_date a)) * 12
             + (month (today en) - month (purchase_date a))"
    and "\<not> m \<le> 0"
  shows "calculate_current_values en a =
     (case (if method_of a = ''STRAIGHT_LINE'' then straight_line_total en a m
            else if method_of a = ''DOUBLE_DECLINING''
            then Inr (snd (declining_loop en (salvage_value a) (depreciation_rate en a)
                        m [0 .. m div 12] (purchase_cost a, 0)))
            else straight_line_total en a m) of
        Inl err \<Rightarrow> Inl err
      | Inr t \<Rightarrow>
          Inr (a\<lparr>accumulated_depreciation := quantize (min t (purchase_cost a - salvage_value a)),
                 current_book_value :=
                   quantize (purchase_cost a - quantize (min t (purchase_cost a - salvage_value a)))\<rparr>))"
  using assms by (simp add: calculate_current_values_def Let_def)

text \<open>Whatever total the method gives, the values written are within the bounds.\<close>

lemma calculate_current_values_bounds:
  assumes tp: "two_places (purchase_cost a)" "two_places (salvage_value a)"
    and le: "salvage_value a \<le> purchase_cost a"
    and life: "0 < useful_life_years a"
    and st: "asset_status a \<notin> set [''DISPOSED'', ''SOLD'']"
    and dt: "\<not> date_gt (purchase_date a) (today en)"
  shows "\<exists>a'. calculate_current_values en a = Inr a'
           \<and> accumulated_depreciation a' \<le> purchase_cost a - salvage_value a
           \<and> salvage_value a \<le> current_book_value a'
           \<and> purchase_cost a' = purchase_cost a \<and> salvage_value a' = salvage_value a"
proof -
  define m where "m = (year (today en) - year (purchase_date a)) * 12
            + (month (today en) - month (purchase_date a))"
  show ?thesis
  proof (cases "m \<le> 0")
    case True
    then have "calculate_current_values en a =
        Inr (a\<lparr>accumulated_depreciation := 0, current_book_value := purchase_cost a\<rparr>)"
      using st dt unfolding m_def by (simp add: calculate_current_values_def)
    then show ?thesis using le by simp
  next
    case False
    define computed where "computed =
       (if method_of a = ''STRAIGHT_LINE'' then straight_line_total en a m
        else if method_of a = ''DOUBLE_DECLINING''
        then Inr (snd (declining_loop en (salvage_value a) (depreciation_rate en a)
                    m [0 .. m div 12] (purchase_cost a, 0)))
        else straight_line_total en a m)"
    obtain s where s: "straight_line_total en a m = Inr s"
      using straight_line_total_ok [OF life] by blast
    have "\<exists>t. computed = Inr t" unfolding computed_def by (simp only: s) simp
    then obtain t where t: "computed = Inr t" by blast
    let ?acc = "quantize (min t (purchase_cost a - salvage_value a))"
    have "calculate_current_values en a =
        Inr (a\<lparr>accumulated_depreciation := ?acc,
               current_book_value := quantize (purchase_cost a - ?acc)\<rparr>)"
      unfolding calculate_current_values_owned [OF st dt m_def False]
      using t unfolding computed_def by (simp only: sum.case)
    then show ?thesis using clamp_and_round [OF tp, of t] by simp
  qed
qed

lemma asset_save_bounds:
  assumes tp: "two_places (purchase_cost a)" "two_places (salvage_value a)"
    and le: "salvage_value a \<le> purchase_cost a"
    and life: "0 < useful_life_years a"
    and st: "asset_status a \<notin> set [''DISPOSED'', ''SOLD'']"
    and dt: "\<not> date_gt (purchase_date a) (today en)"
  shows "\<exists>a'. asset_save en a = Inr a'
           \<and> accumulated_depreciation a' \<le> purchase_cost a - salvage_value a
           \<and> salvage_value a \<le> current_book_value a'"
proof -
  define a2 where "a2 =
     (let a1 = (if asset_number a = [] then a\<lparr>asset_number := generate_asset_number en a\<rparr> else a)
      in if depreciation_method a1 = []
         then a1\<lparr>depreciation_method := cat_depreciation_method (category a1)\<rparr> else a1)"
  have same: "purchase_cost a2 = purchase_cost a" "salvage_value a2 = salvage_value a"
    "useful_life_years a2 = useful_life_years a" "asset_status a2 = asset_status a"
    "purchase_date a2 = purchase_date a"
    by (simp_all add: a2_def Let_def)
  have sv: "asset_save en a = calculate_current_values en a2"
    by (simp add: asset_save_def a2_def Let_def)
  have "\<exists>a'. calculate_current_values en a2 = Inr a'
           \<and> accumulated_depreciation a' \<le> purchase_cost a2 - salvage_value a2
           \<and> salvage_value a2 \<le> current_book_value a'
           \<and> purchase_cost a' = purchase_cost a2 \<and> salvage_value a' = salvage_value a2"
    using assms by (intro calculate_current_values_bounds) (simp_all add: same)
  then show ?thesis by (auto simp: sv same)
qed

lemma monthly_depreciation_round_bounds:
  assumes tp: "two_places (purchase_cost a)" "two_places (salvage_value a)"
    and le: "salvage_value a \<le> purchase_cost a"
    and life: "0 < useful_life_years a"
    and st: "asset_status a \<notin> set [''DISPOSED'', ''SOLD'']"
    and dt: "\<not> date_gt (purchase_date a) (today en)"
  shows "monthly_depreciation_round en existing a = Inr None
       \<or> (\<exists>a'. monthly_depreciation_round en existing a = Inr (Some a')
             \<and> accumulated_depreciation a' \<le> purchase_cost a - salvage_value a
             \<and> salvage_value a \<le> current_book_value a')"
proof -
  have "\<exists>x. annual_depreciation en a = Inr x"
    using life by (simp add: annual_depreciation_def decimal_div_def Let_def)
  then have "\<exists>x. calculate_current_depreciation en existing a = Inr x"
    by (auto simp: calculate_current_depreciation_def monthly_depreciation_def)
  then obtain amount where am: "calculate_current_depreciation en existing a = Inr amount" by blast
  show ?thesis
  proof (cases "amount > 0")
    case False
    then show ?thesis by (simp add: monthly_depreciation_round_def am)
  next
    case True
    define a3 where "a3 =
      (let a1 = a\<lparr>accumulated_depreciation := accumulated_depreciation a + amount\<rparr>;
           a2 = a1\<lparr>current_book_value :=
                     max (purchase_cost a1 - accumulated_depreciation a1)
                         (if salvage_value a1 \<noteq> 0 then salvage_value a1 else 0)\<rparr>
       in a2\<lparr>last_depreciation_date := Some (today en)\<rparr>)"
    have same: "purchase_cost a3 = purchase_cost a" "salvage_value a3 = salvage_value a"
      "useful_life_years a3 = useful_life_years a" "asset_status a3 = asset_status a"
      "purchase_date a3 = purchase_date a"
      by (simp_all add: a3_def Let_def)
    have r: "monthly_depreciation_round en existing a = map_sum id Some (asset_save en a3)"
      using True by (simp add: monthly_depreciation_round_def am a3_def Let_def)
    have "\<exists>a'. asset_save en a3 = Inr a'
           \<and> accumulated_depreciation a' \<le> purchase_cost a3 - salvage_value a3
           \<and> salvage_value a3 \<le> current_book_value a'"
      using assms by (intro asset_save_bounds) (simp_all add: same)
    then show ?thesis by (auto simp: r same)
  qed
qed

text \<open>
  Claim C6. For an asset that is not disposed of or sold, whose cost and salvage value are
  column values with \<open>salvage_value \<le> purchase_cost\<close> and whose useful life is positive,
  whatever its depreciation method, whatever the rounding of the decimal context and however
  far the current date is after the purchase date, \<open>calculate_current_values\<close> returns, with
  an accumulated depreciation of at most \<open>purchase_cost - salvage_value\<close> and a book value of
  at least \<open>salvage_value\<close>; so does one round of the monthly depreciation task, which saves
  the asset after adding the month's amount.
\<close>

theorem depreciation_floor:
  assumes "two_places (purchase_cost a)" and "two_places (salvage_value a)"
    and "salvage_value a \<le> purchase_cost a"
    and "0 < useful_life_years a"
    and "asset_status a \<notin> set [''DISPOSED'', ''SOLD'']"
    and "\<not> date_gt (purchase_date a) (today en)"
  shows "(\<exists>a'. calculate_current_values en a = Inr a'
             \<and> accumulated_depreciation a' \<le> purchase_cost a - salvage_value a
             \<and> salvage_value a \<le> current_book_value a')
       \<and> (monthly_depreciation_round en existing a = Inr None
          \<or> (\<exists>a'. monthly_depreciation_round en existing a = Inr (Some a')
                \<and> accumulated_depreciation a' \<le> purchase_cost a - salvage_value a
                \<and> salvage_value a \<le> current_book_value a'))"
  using calculate_current_values_bounds [OF assms] monthly_depreciation_round_bounds [OF assms]
  by blast

text \<open>Thirty-six years on, the double-declining asset of the example stands at its salvage
  value.\<close>

lemma ex_double_declining_2060:
  "map_sum id accumulated_depreciation
     (calculate_current_values ex_env_2060 (ex_asset\<lparr>depreciation_method := ''DOUBLE_DECLINING''\<rparr>))
     = Inr 9000
   \<and> map_sum id current_book_value
     (calculate_current_values ex_env_2060 (ex_asset\<lparr>depreciation_method := ''DOUBLE_DECLINING''\<rparr>))
     = Inr 1000"
  by (simp add: asset_defs ex_asset_defs upto.simps)

theorem depreciation_floor_witness:
  "two_places (purchase_cost ex_asset) \<and> two_places (salvage_value ex_asset)
   \<and> salvage_value ex_asset \<le> purchase_cost ex_asset
   \<and> 0 < useful_life_years ex_asset
   \<and> asset_status (ex_asset\<lparr>depreciation_method := ''DOUBLE_DECLINING''\<rparr>) \<notin> set [''DISPOSED'', ''SOLD'']
   \<and> \<not> date_gt (purchase_date ex_asset) (today ex_env_2060)
   \<and> (\<exists>a'. calculate_current_values ex_env_2060 (ex_asset\<lparr>depreciation_method := ''DOUBLE_DECLINING''\<rparr>) = Inr a'
          \<and> accumulated_depreciation a' \<le> 9000 \<and> 1000 \<le> current_book_value a')
   \<and> map_sum id accumulated_depreciation
        (calculate_current_values ex_env_2060 (ex_asset\<lparr>depreciation_method := ''DOUBLE_DECLINING''\<rparr>))
        = Inr 9000
   \<and> map_sum id current_book_value
        (calculate_current_values ex_env_2060 (ex_asset\<lparr>depreciation_method := ''DOUBLE_DECLINING''\<rparr>))
        = Inr 1000
   \<and> (monthly_depreciation_round ex_env_2060 False (ex_asset\<lparr>depreciation_method := ''DOUBLE_DECLINING''\<rparr>) = Inr None
      \<or> (\<exists>a'. monthly_depreciation_round ex_env_2060 False (ex_asset\<lparr>depreciation_method := ''DOUBLE_DECLINING''\<rparr>) = Inr (Some a')
            \<and> accumulated_depreciation a' \<le> 9000 \<and> 1000 \<le> current_book_value a'))"
proof -
  let ?a = "ex_asset\<lparr>depreciation_method := ''DOUBLE_DECLINING''\<rparr>"
  have h1: "two_places (purchase_cost ?a)" by (simp add: two_places_def ex_asset_def)
  have h2: "two_places (salvage_value ?a)" by (simp add: two_places_def ex_asset_def)
  have h3: "salvage_value ?a \<le> purchase_cost ?a" by (simp add: ex_asset_def)
  have h4: "0 < useful_life_years ?a" by (simp add: ex_asset_def)
  have h5: "asset_status ?a \<notin> set [''DISPOSED'', ''SOLD'']" by (simp add: ex_asset_def)
  have h6: "\<not> date_gt (purchase_date ?a) (today ex_env_2060)"
    by (simp add: date_gt_def ex_asset_def ex_env_2060_def ex_env_def)
  have v: "purchase_cost ex_asset = 10000" "salvage_value ex_asset = 1000"
    by (simp_all add: ex_asset_def)
  show ?thesis
    using h1 h2 h3 h4 h5 h6 v ex_double_declining_2060
      depreciation_floor [OF h1 h2 h3 h4 h5 h6, of False]
    by simp
qed

section \<open>The declining-balance method\<close>

text \<open>For every asset, the method \<open>DECLINING_BALANCE\<close> gives what \<open>STRAIGHT_LINE\<close> gives.\<close>

lemma declining_balance_takes_straight_line:
  "map_sum id accumulated_depreciation
     (calculate_current_values en (a\<lparr>depreciation_method := ''DECLINING_BALANCE''\<rparr>)) =
   map_sum id accumulated_depreciation
     (calculate_current_values en (a\<lparr>depreciation_method := ''STRAIGHT_LINE''\<rparr>))"
  by (simp add: calculate_current_values_def straight_line_total_def decimal_div_def
      method_of_def Let_def)

text \<open>
  Claim C7. For the method \<open>DECLINING_BALANCE\<close> the accumulated depreciation should follow
  the declining-balance mechanics at the annual rate \<open>1.5 / useful_life_years\<close>. The code has
  that rate (\<open>depreciation_rate\<close> is 0.3 for a life of 5 years) but
  \<open>calculate_current_values\<close> sends the method to the straight-line formula: for a cost of
  10000, a salvage value of 1000 and 12 months of ownership it writes 1800.00, where the loop
  of the double-declining branch run at the rate 0.3 gives 3000.00.
\<close>

theorem declining_balance_not_declining:
  "method_of ex_asset = ''DECLINING_BALANCE''
   \<and> depreciation_rate ex_env ex_asset = 3 / 10
   \<and> snd (declining_loop ex_env (salvage_value ex_asset) (depreciation_rate ex_env ex_asset) 12
            [0 .. 12 div 12] (purchase_cost ex_asset, 0)) = 3000
   \<and> map_sum id accumulated_depreciation (calculate_current_values ex_env ex_asset) = Inr 1800
   \<and> map_sum id current_book_value (calculate_current_values ex_env ex_asset) = Inr 8200
   \<and> map_sum id accumulated_depreciation
        (calculate_current_values ex_env (ex_asset\<lparr>depreciation_method := ''STRAIGHT_LINE''\<rparr>)) = Inr 1800"
  by (simp add: asset_defs ex_asset_defs upto.simps)

section \<open>Disposal and its rollback\<close>

text \<open>A disposed asset is saved as it is: its values are not recomputed.\<close>

lemma asset_save_disposed:
  "asset_status a = ''DISPOSED'' \<Longrightarrow> \<exists>a'. asset_save en a = Inr a'
     \<and> asset_status a' = ''DISPOSED'' \<and> disposal_date a' = disposal_date a
     \<and> disposal_amount a' = disposal_amount a \<and> disposal_method a' = disposal_method a
     \<and> current_book_value a' = current_book_value a"
  by (simp add: asset_save_def calculate_current_values_def Let_def)

lemma asset_save_keeps_disposal_fields:
  "asset_save en a = Inr a' \<Longrightarrow>
     asset_status a' = asset_status a \<and> disposal_date a' = disposal_date a
     \<and> disposal_amount a' = disposal_amount a \<and> disposal_method a' = disposal_method a"
  by (auto simp: asset_save_def calculate_current_values_def Let_def split: if_splits sum.splits)

lemma disposal_journal_result:
  "disposal_journal d a dt amount book g = Inr (d', res) \<Longrightarrow>
     gain_loss res = g \<and> book_value res = book \<and> result_disposal_amount res = amount"
  by (auto simp: disposal_journal_def Let_def split: sum.splits prod.splits if_splits)

text \<open>On success the asset is \<open>DISPOSED\<close> and the gain or loss returned is the disposal
  amount less the book value the asset had.\<close>

lemma disposal_success:
  assumes "create_disposal_entry en d a dt amount how = (Inr res, d', a')"
  shows "asset_status a' = ''DISPOSED'' \<and> disposal_date a' = Some dt
       \<and> disposal_amount a' = Some amount \<and> disposal_method a' = how
       \<and> gain_loss res = amount - current_book_value a"
proof -
  let ?a1 = "a\<lparr>asset_status := ''DISPOSED'', disposal_date := Some dt,
                 disposal_amount := Some amount, disposal_method := how\<rparr>"
  obtain a2 where a2: "asset_save en ?a1 = Inr a2" and
    f: "asset_status a2 = ''DISPOSED''" "disposal_date a2 = Some dt"
       "disposal_amount a2 = Some amount" "disposal_method a2 = how"
    using asset_save_disposed [of ?a1 en] by auto
  from assms a2 have
    "disposal_journal d a2 dt amount (current_book_value a) (amount - current_book_value a) = Inr (d', res)"
    and "a' = a2"
    by (auto simp: create_disposal_entry_def Let_def split: sum.splits prod.splits)
  then show ?thesis using f disposal_journal_result by auto
qed

text \<open>When the journal entry fails, the asset is set to \<open>ACTIVE\<close> with no disposal data,
  whatever it was before.\<close>

lemma disposal_failure:
  assumes "create_disposal_entry en d a dt amount how = (Inl err, d', a')"
  shows "asset_status a' = ''ACTIVE'' \<and> disposal_date a' = None
       \<and> disposal_amount a' = None \<and> disposal_method a' = [] \<and> d' = d"
proof -
  let ?a1 = "a\<lparr>asset_status := ''DISPOSED'', disposal_date := Some dt,
                 disposal_amount := Some amount, disposal_method := how\<rparr>"
  obtain a2 where a2: "asset_save en ?a1 = Inr a2"
    using asset_save_disposed [of ?a1 en] by auto
  let ?a3 = "a2\<lparr>asset_status := ''ACTIVE'', disposal_date := None,
                  disposal_amount := None, disposal_method := []\<rparr>"
  show ?thesis
  proof (cases "asset_save en ?a3")
    case (Inl e2)
    then show ?thesis using assms a2
      by (auto simp: create_disposal_entry_def Let_def split: sum.splits prod.splits)
  next
    case (Inr a4)
    then have "a' = a4 \<and> d' = d" using assms a2
      by (auto simp: create_disposal_entry_def Let_def split: sum.splits prod.splits)
    then show ?thesis using asset_save_keeps_disposal_fields [OF Inr] by simp
  qed
qed

text \<open>
  Claim C9. When the disposal journal entry fails, the asset's status and disposal fields
  should be back at the values they had before the disposal was attempted. The code writes
  \<open>ACTIVE\<close> and empty disposal fields instead of the earlier values: an \<open>INACTIVE\<close> asset
  whose disposal fails, because the cash account 1000 does not exist, comes back \<open>ACTIVE\<close>.
\<close>

theorem disposal_rollback_sets_active:
  "asset_status ex_inactive_asset = ''INACTIVE''
   \<and> account_codes ex_db0 ''1000'' = None
   \<and> fst (create_disposal_entry ex_env ex_db0 ex_inactive_asset ex_date 500 ''SALE'')
       = Inl (DoesNotExist ''1000'')
   \<and> asset_status (snd (snd (create_disposal_entry ex_env ex_db0 ex_inactive_asset ex_date 500 ''SALE'')))
       = ''ACTIVE''"
  by (simp add: create_disposal_entry_def disposal_journal_def je_create_def je_save_def
      je_super_save_def number_taken_def new_je_id_def account_by_code_def fits_def
      asset_defs ex_asset_def ex_category_def ex_env_def ex_inactive_asset_def ex_defs
      string_defs strftime_Ymd_def format_04d_def format_02d_def)

section \<open>The cap on advances\<close>

lemmas sales_defs = request_advance_def serializer_create_def give_advance_def
  validate_requested_amount_def available_commission_of_def commission_total_def
  unrecovered_advances_def paid_advance_def Let_def

text \<open>Requesting never goes beyond the available balance.\<close>

lemma request_advance_cap:
  assumes "request_advance sd u employee amount dt = (Inr adv, sd')"
  shows "amount \<le> available_commission_of sd (adv_employee adv) \<and> approved_amount adv = amount
       \<and> adv_status adv = ''PAID''"
  using assms
  by (auto simp: request_advance_def serializer_create_def validate_requested_amount_def
      paid_advance_def Let_def split: if_splits option.splits)

lemma request_advance_refused:
  assumes "available_commission_of sd (case employee of Some e \<Rightarrow> e | None \<Rightarrow> user_id u) < amount"
  shows "\<exists>err. request_advance sd u employee amount dt = (Inl (ValidationError err), sd)"
  using assms
  by (auto simp: request_advance_def serializer_create_def validate_requested_amount_def Let_def)

text \<open>Giving an advance directly is held to the payable commissions alone.\<close>

lemma give_advance_cap:
  assumes "give_advance sd u employee amount dt = (Inr adv, sd')"
  shows "amount \<le> commission_total sd (adv_employee adv) [''PAYABLE'']"
  using assms
  by (auto simp: give_advance_def validate_requested_amount_def paid_advance_def Let_def
      split: if_splits option.splits)

text \<open>
  Claim C8. The balance an advance is checked against should be the employee's AVAILABLE and
  PAYABLE commissions less the approved amounts of their APPROVED and PAID advances, not
  below zero, on both paths. Requesting does so: with 10000 of commission and a paid advance
  of 3000 the balance is 7000, a request of 8000 is refused and one of 7000 is written.
  \<open>give_advance\<close> checks against the PAYABLE commissions alone and deducts nothing: it
  writes an advance of 8000 for the same employee.
\<close>

theorem give_advance_exceeds_balance:
  "commission_total ex_sales 7 [''AVAILABLE'', ''PAYABLE''] = 10000
   \<and> unrecovered_advances ex_sales 7 = 3000
   \<and> available_commission_of ex_sales 7 = 7000
   \<and> fst (request_advance ex_sales ex_manager (Some 7) 8000 ex_date)
       = Inl (ValidationError ''Requested amount exceeds available commission'')
   \<and> fst (request_advance ex_sales ex_manager (Some 7) 7000 ex_date)
       = Inr (paid_advance 7 7000 7000 ex_date)
   \<and> fst (give_advance ex_sales ex_manager (Some 7) 8000 ex_date)
       = Inr (paid_advance 7 8000 10000 ex_date)"
  by (simp add: sales_defs ex_sales_def ex_manager_def ex_date_def)

end

